theory Spec2Isabelle
  imports Main "HOL-Library.Word"
begin

unbundle bit_operations_syntax

section \<open>Platform types\<close>

text \<open>
  Modelled from the spec: the scalar types, the return codes and the structures of the
  platform headers (windef.h, winerror.h, xinput.h), which are not under src/. \<open>BYTE\<close>
  and \<open>char\<close> are 8 bits, \<open>WORD\<close> and \<open>SHORT\<close> 16 bits, \<open>DWORD\<close> and \<open>int\<close> 32
  bits. A signed value is the same word read with \<open>sint\<close>; signed comparisons are
  \<open><s\<close>. The pad sample is the button mask, two trigger bytes and four signed 16-bit
  axes; the state adds the packet counter.
\<close>

type_synonym BYTE = "8 word"
type_synonym WORD = "16 word"
type_synonym SHORT = "16 word"
type_synonym DWORD = "32 word"

text \<open>The return codes that the library uses; only their being distinct matters.\<close>

datatype retcode =
    ERROR_SUCCESS
  | ERROR_BAD_ARGUMENTS
  | ERROR_DEVICE_NOT_CONNECTED
  | ERROR_EMPTY
  | ERROR_NOT_SUPPORTED

record XINPUT_GAMEPAD =
  wButtons :: WORD
  bLeftTrigger :: BYTE
  bRightTrigger :: BYTE
  sThumbLX :: SHORT
  sThumbLY :: SHORT
  sThumbRX :: SHORT
  sThumbRY :: SHORT

record XINPUT_STATE =
  dwPacketNumber :: DWORD
  Gamepad :: XINPUT_GAMEPAD

record XINPUT_VIBRATION =
  wLeftMotorSpeed :: WORD
  wRightMotorSpeed :: WORD

text \<open>The fields \<open>Flags\<close> and \<open>Gamepad\<close> of \<open>XINPUT_CAPABILITIES\<close> carry the suffix
  \<open>_caps\<close>: the names are taken by \<open>XINPUT_KEYSTROKE\<close> and \<open>XINPUT_STATE\<close>.\<close>

record XINPUT_CAPABILITIES =
  Type :: BYTE
  SubType :: BYTE
  Flags_caps :: WORD
  Gamepad_caps :: XINPUT_GAMEPAD
  Vibration :: XINPUT_VIBRATION

record XINPUT_CAPABILITIES_EX =
  Capabilities :: XINPUT_CAPABILITIES
  VendorId :: WORD
  ProductId :: WORD
  VersionNumber :: WORD
  unk1 :: WORD
  unk2 :: DWORD

record XINPUT_KEYSTROKE =
  VirtualKey :: WORD
  Unicode :: WORD
  Flags :: WORD
  UserIndex :: BYTE
  HidCode :: BYTE

section \<open>Constants\<close>

text \<open>Modelled from the spec: the numeric flag values of the platform's gamepad API. The
  header xinput.h that declares them is not under src/; the spec leaves them to the platform
  headers, and the values below are those of the public XInput ABI.\<close>

definition XINPUT_DEVTYPE_GAMEPAD :: BYTE where "XINPUT_DEVTYPE_GAMEPAD = 0x01"
definition XINPUT_DEVSUBTYPE_GAMEPAD :: BYTE where "XINPUT_DEVSUBTYPE_GAMEPAD = 0x01"

definition XINPUT_GAMEPAD_DPAD_UP :: WORD where "XINPUT_GAMEPAD_DPAD_UP = 0x0001"
definition XINPUT_GAMEPAD_DPAD_DOWN :: WORD where "XINPUT_GAMEPAD_DPAD_DOWN = 0x0002"
definition XINPUT_GAMEPAD_DPAD_LEFT :: WORD where "XINPUT_GAMEPAD_DPAD_LEFT = 0x0004"
definition XINPUT_GAMEPAD_DPAD_RIGHT :: WORD where "XINPUT_GAMEPAD_DPAD_RIGHT = 0x0008"
definition XINPUT_GAMEPAD_START :: WORD where "XINPUT_GAMEPAD_START = 0x0010"
definition XINPUT_GAMEPAD_BACK :: WORD where "XINPUT_GAMEPAD_BACK = 0x0020"
definition XINPUT_GAMEPAD_LEFT_THUMB :: WORD where "XINPUT_GAMEPAD_LEFT_THUMB = 0x0040"
definition XINPUT_GAMEPAD_RIGHT_THUMB :: WORD where "XINPUT_GAMEPAD_RIGHT_THUMB = 0x0080"
definition XINPUT_GAMEPAD_LEFT_SHOULDER :: WORD where "XINPUT_GAMEPAD_LEFT_SHOULDER = 0x0100"
definition XINPUT_GAMEPAD_RIGHT_SHOULDER :: WORD where "XINPUT_GAMEPAD_RIGHT_SHOULDER = 0x0200"
definition XINPUT_GAMEPAD_A :: WORD where "XINPUT_GAMEPAD_A = 0x1000"
definition XINPUT_GAMEPAD_B :: WORD where "XINPUT_GAMEPAD_B = 0x2000"
definition XINPUT_GAMEPAD_X :: WORD where "XINPUT_GAMEPAD_X = 0x4000"
definition XINPUT_GAMEPAD_Y :: WORD where "XINPUT_GAMEPAD_Y = 0x8000"

definition VK_PAD_A :: WORD where "VK_PAD_A = 0x5800"
definition VK_PAD_B :: WORD where "VK_PAD_B = 0x5801"
definition VK_PAD_X :: WORD where "VK_PAD_X = 0x5802"
definition VK_PAD_Y :: WORD where "VK_PAD_Y = 0x5803"
definition VK_PAD_RSHOULDER :: WORD where "VK_PAD_RSHOULDER = 0x5804"
definition VK_PAD_LSHOULDER :: WORD where "VK_PAD_LSHOULDER = 0x5805"
definition VK_PAD_LTRIGGER :: WORD where "VK_PAD_LTRIGGER = 0x5806"
definition VK_PAD_RTRIGGER :: WORD where "VK_PAD_RTRIGGER = 0x5807"
definition VK_PAD_DPAD_UP :: WORD where "VK_PAD_DPAD_UP = 0x5810"
definition VK_PAD_DPAD_DOWN :: WORD where "VK_PAD_DPAD_DOWN = 0x5811"
definition VK_PAD_DPAD_LEFT :: WORD where "VK_PAD_DPAD_LEFT = 0x5812"
definition VK_PAD_DPAD_RIGHT :: WORD where "VK_PAD_DPAD_RIGHT = 0x5813"
definition VK_PAD_START :: WORD where "VK_PAD_START = 0x5814"
definition VK_PAD_BACK :: WORD where "VK_PAD_BACK = 0x5815"
definition VK_PAD_LTHUMB_PRESS :: WORD where "VK_PAD_LTHUMB_PRESS = 0x5816"
definition VK_PAD_RTHUMB_PRESS :: WORD where "VK_PAD_RTHUMB_PRESS = 0x5817"
definition VK_PAD_LTHUMB_UP :: WORD where "VK_PAD_LTHUMB_UP = 0x5820"
definition VK_PAD_LTHUMB_RIGHT :: WORD where "VK_PAD_LTHUMB_RIGHT = 0x5822"
definition VK_PAD_RTHUMB_UP :: WORD where "VK_PAD_RTHUMB_UP = 0x5830"

definition XINPUT_KEYSTROKE_KEYDOWN :: WORD where "XINPUT_KEYSTROKE_KEYDOWN = 0x0001"
definition XINPUT_KEYSTROKE_KEYUP :: WORD where "XINPUT_KEYSTROKE_KEYUP = 0x0002"

definition XINPUT_FLAG_GAMEPAD :: DWORD where "XINPUT_FLAG_GAMEPAD = 0x00000001"
definition XUSER_MAX_COUNT :: DWORD where "XUSER_MAX_COUNT = 4"
definition XUSER_INDEX_ANY :: DWORD where "XUSER_INDEX_ANY = 0x000000FF"

text \<open>The constants that main.c defines itself.\<close>

definition XINPUT_GAMEPAD_GUIDE :: WORD where "XINPUT_GAMEPAD_GUIDE = 0x0400"

definition BUFFER_SIZE :: nat where "BUFFER_SIZE = 64"

definition REQUEST_CODE_GET_GAMEPAD :: "8 word" where "REQUEST_CODE_GET_GAMEPAD = 8"
definition REQUEST_CODE_GET_GAMEPAD_STATE :: "8 word" where "REQUEST_CODE_GET_GAMEPAD_STATE = 9"
definition REQUEST_CODE_RELEASE_GAMEPAD :: "8 word" where "REQUEST_CODE_RELEASE_GAMEPAD = 10"

definition IDX_BUTTON_A :: nat where "IDX_BUTTON_A = 0"
definition IDX_BUTTON_B :: nat where "IDX_BUTTON_B = 1"
definition IDX_BUTTON_X :: nat where "IDX_BUTTON_X = 2"
definition IDX_BUTTON_Y :: nat where "IDX_BUTTON_Y = 3"
definition IDX_BUTTON_L1 :: nat where "IDX_BUTTON_L1 = 4"
definition IDX_BUTTON_R1 :: nat where "IDX_BUTTON_R1 = 5"
definition IDX_BUTTON_L2 :: nat where "IDX_BUTTON_L2 = 10"
definition IDX_BUTTON_R2 :: nat where "IDX_BUTTON_R2 = 11"
definition IDX_BUTTON_SELECT :: nat where "IDX_BUTTON_SELECT = 6"
definition IDX_BUTTON_START :: nat where "IDX_BUTTON_START = 7"
definition IDX_BUTTON_L3 :: nat where "IDX_BUTTON_L3 = 8"
definition IDX_BUTTON_R3 :: nat where "IDX_BUTTON_R3 = 9"

section \<open>The controller and the globals of main.c\<close>

text \<open>
  \<open>struct xinput_controller\<close> without its critical section: every function below is one
  atomic step, which is what the critical section gives. The field \<open>id\<close> is \<open>id_c\<close> here
  (\<open>id\<close> is the identity function of HOL).
\<close>

record xinput_controller =
  caps :: XINPUT_CAPABILITIES
  state :: XINPUT_STATE
  last_keystroke :: XINPUT_GAMEPAD
  enabled :: bool
  connected :: bool
  id_c :: "32 word"

text \<open>
  The file-scope variables: the controller, \<open>thread_running\<close>, the \<open>char\<close>
  \<open>xinput_min_index\<close> and the \<open>INIT_ONCE\<close> of \<open>start_read_thread\<close> (\<open>init_once\<close>: whether
  it has run). The socket and the start event carry no data that a claim reads.
\<close>

record globals =
  controller :: xinput_controller
  thread_running :: bool
  xinput_min_index :: "8 word"
  init_once :: bool

definition zero_gamepad :: XINPUT_GAMEPAD where
  "zero_gamepad = \<lparr>wButtons = 0, bLeftTrigger = 0, bRightTrigger = 0,
     sThumbLX = 0, sThumbLY = 0, sThumbRX = 0, sThumbRY = 0\<rparr>"

definition zero_state :: XINPUT_STATE where
  "zero_state = \<lparr>dwPacketNumber = 0, Gamepad = zero_gamepad\<rparr>"

definition zero_caps :: XINPUT_CAPABILITIES where
  "zero_caps = \<lparr>Type = 0, SubType = 0, Flags_caps = 0, Gamepad_caps = zero_gamepad,
     Vibration = \<lparr>wLeftMotorSpeed = 0, wRightMotorSpeed = 0\<rparr>\<rparr>"

text \<open>The static initialisers: what the initialiser of \<open>controller\<close> leaves out is zero.\<close>

definition initial_controller :: xinput_controller where
  "initial_controller = \<lparr>caps = zero_caps, state = zero_state, last_keystroke = zero_gamepad,
     enabled = False, connected = False, id_c = 0\<rparr>"

definition initial_globals :: globals where
  "initial_globals = \<lparr>controller = initial_controller, thread_running = False,
     xinput_min_index = 3, init_once = False\<rparr>"

section \<open>Capabilities and initialisation\<close>

definition sizeof_BYTE :: nat where "sizeof_BYTE = 1"
definition sizeof_SHORT :: nat where "sizeof_SHORT = 2"

text \<open>\<open>(1u << (sizeof(field) + 1)) - 1\<close>, computed in \<open>unsigned int\<close>; the assignment to
  the field truncates it (\<open>ucast\<close>).\<close>

definition range_mask :: "nat \<Rightarrow> 32 word" where
  "range_mask sz = push_bit (sz + 1) 1 - 1"

definition controller_check_caps :: "xinput_controller \<Rightarrow> xinput_controller" where
  "controller_check_caps c =
     c\<lparr>caps := \<lparr>Type = XINPUT_DEVTYPE_GAMEPAD, SubType = XINPUT_DEVSUBTYPE_GAMEPAD,
         Flags_caps = 0,
         Gamepad_caps = \<lparr>wButtons = 0xffff,
           bLeftTrigger = ucast (range_mask sizeof_BYTE),
           bRightTrigger = ucast (range_mask sizeof_BYTE),
           sThumbLX = ucast (range_mask sizeof_SHORT),
           sThumbLY = ucast (range_mask sizeof_SHORT),
           sThumbRX = ucast (range_mask sizeof_SHORT),
           sThumbRY = ucast (range_mask sizeof_SHORT)\<rparr>,
         Vibration = \<lparr>wLeftMotorSpeed = 0, wRightMotorSpeed = 0\<rparr>\<rparr>\<rparr>"

definition controller_destroy :: "globals \<Rightarrow> globals" where
  "controller_destroy g =
     g\<lparr>thread_running := False, xinput_min_index := 3,
       controller := (controller g)\<lparr>enabled := False, connected := False\<rparr>\<rparr>"

definition controller_init :: "xinput_controller \<Rightarrow> xinput_controller" where
  "controller_init c = (controller_check_caps (c\<lparr>state := zero_state\<rparr>))
     \<lparr>connected := True, enabled := True\<rparr>"

section \<open>Decoding a state frame\<close>

text \<open>
  The receive buffer is \<open>char buffer[BUFFER_SIZE]\<close>, a list of 64 bytes here.
  \<open>*(short* )(buffer + n)\<close> and \<open>*(int* )(buffer + n)\<close> are unaligned little-endian reads.
\<close>

type_synonym buffer = "8 word list"

definition read_short :: "buffer \<Rightarrow> nat \<Rightarrow> 16 word" where
  "read_short b n = ucast (b ! n) OR push_bit 8 (ucast (b ! (n + 1)))"

definition read_int :: "buffer \<Rightarrow> nat \<Rightarrow> 32 word" where
  "read_int b n = ucast (b ! n) OR push_bit 8 (ucast (b ! (n + 1)))
     OR push_bit 16 (ucast (b ! (n + 2))) OR push_bit 24 (ucast (b ! (n + 3)))"

text \<open>The \<open>switch (i)\<close> of the button loop.\<close>

definition button_flag :: "nat \<Rightarrow> WORD" where
  "button_flag i =
     (if i = IDX_BUTTON_A then XINPUT_GAMEPAD_A
      else if i = IDX_BUTTON_B then XINPUT_GAMEPAD_B
      else if i = IDX_BUTTON_X then XINPUT_GAMEPAD_X
      else if i = IDX_BUTTON_Y then XINPUT_GAMEPAD_Y
      else if i = IDX_BUTTON_L1 then XINPUT_GAMEPAD_LEFT_SHOULDER
      else if i = IDX_BUTTON_R1 then XINPUT_GAMEPAD_RIGHT_SHOULDER
      else if i = IDX_BUTTON_SELECT then XINPUT_GAMEPAD_BACK
      else if i = IDX_BUTTON_START then XINPUT_GAMEPAD_START
      else if i = IDX_BUTTON_L3 then XINPUT_GAMEPAD_LEFT_THUMB
      else if i = IDX_BUTTON_R3 then XINPUT_GAMEPAD_RIGHT_THUMB
      else 0)"

text \<open>\<open>buttons & (1 << i)\<close>: the \<open>short\<close> is promoted to \<open>int\<close> (sign-extended) first.\<close>

definition button_set :: "16 word \<Rightarrow> nat \<Rightarrow> bool" where
  "button_set buttons i = ((scast buttons :: 32 word) AND push_bit i 1 \<noteq> 0)"

text \<open>The loop \<open>for (i = 0; i < 10; i++)\<close> over \<open>wButtons\<close>, which starts at 0.\<close>

definition decode_buttons :: "16 word \<Rightarrow> WORD" where
  "decode_buttons buttons =
     fold (\<lambda>i w. if button_set buttons i then w OR button_flag i else w) [0..<10] 0"

text \<open>The \<open>switch (dpad)\<close>; \<open>dpad\<close> is a \<open>char\<close>, and no case means no change.\<close>

definition decode_dpad :: "8 word \<Rightarrow> WORD" where
  "decode_dpad dpad =
     (if dpad = 0 then XINPUT_GAMEPAD_DPAD_UP
      else if dpad = 1 then XINPUT_GAMEPAD_DPAD_UP OR XINPUT_GAMEPAD_DPAD_RIGHT
      else if dpad = 2 then XINPUT_GAMEPAD_DPAD_RIGHT
      else if dpad = 3 then XINPUT_GAMEPAD_DPAD_RIGHT OR XINPUT_GAMEPAD_DPAD_DOWN
      else if dpad = 4 then XINPUT_GAMEPAD_DPAD_DOWN
      else if dpad = 5 then XINPUT_GAMEPAD_DPAD_DOWN OR XINPUT_GAMEPAD_DPAD_LEFT
      else if dpad = 6 then XINPUT_GAMEPAD_DPAD_LEFT
      else if dpad = 7 then XINPUT_GAMEPAD_DPAD_LEFT OR XINPUT_GAMEPAD_DPAD_UP
      else 0)"

text \<open>\<open>-thumb\<close>: the \<open>short\<close> is promoted to \<open>int\<close>, negated, and truncated to \<open>SHORT\<close>
  by the assignment.\<close>

definition negate_short :: "16 word \<Rightarrow> SHORT" where
  "negate_short v = ucast (- (scast v :: 32 word))"

definition controller_update_state :: "buffer \<Rightarrow> xinput_controller \<Rightarrow> xinput_controller" where
  "controller_update_state buffer c =
     (let gamepad_id = read_int buffer 2 in
      if buffer ! 1 \<noteq> 1 \<or> gamepad_id \<noteq> id_c c then
        c\<lparr>connected := False, state := zero_state\<rparr>
      else
        let buttons = read_short buffer 6;
            dpad = buffer ! 8;
            thumb_lx = read_short buffer 9;
            thumb_ly = read_short buffer 11;
            thumb_rx = read_short buffer 13;
            thumb_ry = read_short buffer 15
        in c\<lparr>state := \<lparr>dwPacketNumber = dwPacketNumber (state c) + 1,
               Gamepad = \<lparr>wButtons = decode_buttons buttons OR decode_dpad dpad,
                 bLeftTrigger = (if button_set buttons 10 then 255 else 0),
                 bRightTrigger = (if button_set buttons 11 then 255 else 0),
                 sThumbLX = thumb_lx,
                 sThumbLY = negate_short thumb_ly,
                 sThumbRX = thumb_rx,
                 sThumbRY = negate_short thumb_ry\<rparr>\<rparr>\<rparr>)"

section \<open>The reader thread\<close>

text \<open>
  The body of the loop of \<open>controller_read_thread_proc\<close> for one received datagram
  (\<open>res > 0\<close>): \<open>buffer\<close> is the content of the array after \<open>recvfrom\<close>. The worker runs
  beside the callers; its frames are steps of their own between the API calls.
\<close>

definition controller_read_thread_frame :: "buffer \<Rightarrow> globals \<Rightarrow> globals" where
  "controller_read_thread_frame buffer g =
     (let c = controller g in
      if buffer ! 0 = REQUEST_CODE_GET_GAMEPAD then
        (let gamepad_id = read_int buffer 1 in
         if 0 <s gamepad_id then
           (let c1 = c\<lparr>id_c := gamepad_id\<rparr>
            in g\<lparr>controller := (if \<not> connected c1 then controller_init c1 else c1)\<rparr>)
         else if gamepad_id = 0 then g\<lparr>controller := c\<lparr>id_c := 0, connected := False\<rparr>\<rparr>
         else g)
      else if buffer ! 0 = REQUEST_CODE_GET_GAMEPAD_STATE \<and> connected c then
        g\<lparr>controller := controller_update_state buffer c\<rparr>
      else g)"

text \<open>\<open>InitOnceExecuteOnce\<close>: the first call sets \<open>thread_running\<close> and creates the
  worker, every later call does nothing.\<close>

definition start_read_thread :: "globals \<Rightarrow> globals" where
  "start_read_thread g =
     (if init_once g then g else g\<lparr>init_once := True, thread_running := True\<rparr>)"

definition controller_is_connected :: "DWORD \<Rightarrow> globals \<Rightarrow> bool" where
  "controller_is_connected index g = (index = 0 \<and> connected (controller g))"

section \<open>The public API\<close>

definition XInputEnable :: "bool \<Rightarrow> globals \<Rightarrow> globals" where
  "XInputEnable enable g =
     (let g1 = start_read_thread g in
      if \<not> connected (controller g1) then g1
      else g1\<lparr>controller := (controller g1)\<lparr>enabled := enable\<rparr>\<rparr>)"

definition XInputSetState :: "DWORD \<Rightarrow> XINPUT_VIBRATION \<Rightarrow> globals \<Rightarrow> retcode \<times> globals" where
  "XInputSetState index vibration g =
     (let g1 = start_read_thread g in
      if index \<ge> XUSER_MAX_COUNT then (ERROR_BAD_ARGUMENTS, g1)
      else if \<not> controller_is_connected index g1 then (ERROR_DEVICE_NOT_CONNECTED, g1)
      else (ERROR_SUCCESS, g1))"

text \<open>
  The out-parameter \<open>state\<close> is \<open>None\<close> for a null pointer and \<open>Some\<close> of the caller's
  memory otherwise; the result carries the memory after the call. In
  \<open>index < xinput_min_index\<close> the \<open>char\<close> is converted to the unsigned type of \<open>index\<close>
  (\<open>scast\<close>), and the assignment truncates \<open>index\<close> to a \<open>char\<close> (\<open>ucast\<close>).
\<close>

definition xinput_get_state ::
  "DWORD \<Rightarrow> XINPUT_STATE option \<Rightarrow> globals \<Rightarrow> retcode \<times> XINPUT_STATE option \<times> globals" where
  "xinput_get_state index st g =
     (if st = None then (ERROR_BAD_ARGUMENTS, st, g)
      else
        let g1 = start_read_thread g in
        if index \<ge> XUSER_MAX_COUNT then (ERROR_BAD_ARGUMENTS, st, g1)
        else
          let g2 = (if index < scast (xinput_min_index g1)
                    then g1\<lparr>xinput_min_index := ucast index\<rparr> else g1);
              index' = (if index = scast (xinput_min_index g2) then 0 else index)
          in if \<not> controller_is_connected index' g2 then (ERROR_DEVICE_NOT_CONNECTED, st, g2)
             else (ERROR_SUCCESS, Some (state (controller g2)), g2))"

definition XInputGetState ::
  "DWORD \<Rightarrow> XINPUT_STATE option \<Rightarrow> globals \<Rightarrow> retcode \<times> XINPUT_STATE option \<times> globals" where
  "XInputGetState index st g =
     (case xinput_get_state index st g of (ret, st1, g1) \<Rightarrow>
        if ret \<noteq> ERROR_SUCCESS then (ret, st1, g1)
        else (ERROR_SUCCESS,
              map_option (\<lambda>s. s\<lparr>Gamepad := (Gamepad s)\<lparr>wButtons :=
                 wButtons (Gamepad s) AND NOT XINPUT_GAMEPAD_GUIDE\<rparr>\<rparr>) st1, g1))"

definition XInputGetStateEx ::
  "DWORD \<Rightarrow> XINPUT_STATE option \<Rightarrow> globals \<Rightarrow> retcode \<times> XINPUT_STATE option \<times> globals" where
  "XInputGetStateEx index st g = xinput_get_state index st g"

section \<open>The keystroke synthesizer\<close>

definition JS_STATE_OFF :: int where "JS_STATE_OFF = 0"
definition JS_STATE_LOW :: int where "JS_STATE_LOW = 1"
definition JS_STATE_HIGH :: int where "JS_STATE_HIGH = 2"

definition joystick_state :: "SHORT \<Rightarrow> int" where
  "joystick_state v =
     (if 20000 <s v then JS_STATE_HIGH
      else if v <s - 20000 then JS_STATE_LOW
      else JS_STATE_OFF)"

definition js_vk_offs :: "int \<Rightarrow> int \<Rightarrow> WORD" where
  "js_vk_offs x y =
     (if y = JS_STATE_OFF then
        (if x = JS_STATE_LOW then 3 else 2)
      else if y = JS_STATE_HIGH then
        (if x = JS_STATE_OFF then 0 else if x = JS_STATE_LOW then 4 else 5)
      else
        (if x = JS_STATE_OFF then 1 else if x = JS_STATE_LOW then 7 else 6))"

text \<open>
  \<open>cur_vk\<close> and \<open>last_vk\<close> are \<open>int\<close>: the sum of two \<open>WORD\<close>s cannot overflow it, and
  storing it in \<open>VirtualKey\<close> truncates it to a \<open>WORD\<close>. The result carries the keystroke
  and the two remembered axes after the call.
\<close>

definition check_joystick_keystroke ::
  "XINPUT_KEYSTROKE \<Rightarrow> SHORT \<Rightarrow> SHORT \<Rightarrow> SHORT \<Rightarrow> SHORT \<Rightarrow> WORD
     \<Rightarrow> retcode \<times> XINPUT_KEYSTROKE \<times> SHORT \<times> SHORT" where
  "check_joystick_keystroke keystroke cur_x cur_y last_x last_y base_vk =
     (let cur_x_st = joystick_state cur_x;
          cur_y_st = joystick_state cur_y;
          cur_vk = (if cur_x_st \<noteq> 0 \<or> cur_y_st \<noteq> 0
                    then uint base_vk + uint (js_vk_offs cur_x_st cur_y_st) else 0);
          last_x_st = joystick_state last_x;
          last_y_st = joystick_state last_y;
          last_vk = (if last_x_st \<noteq> 0 \<or> last_y_st \<noteq> 0
                     then uint base_vk + uint (js_vk_offs last_x_st last_y_st) else 0)
      in if cur_vk \<noteq> last_vk then
           (if last_vk \<noteq> 0 then
              (ERROR_SUCCESS,
               \<lparr>VirtualKey = word_of_int last_vk, Unicode = 0,
                Flags = XINPUT_KEYSTROKE_KEYUP, UserIndex = 0, HidCode = 0\<rparr>,
               0, 0)
            else
              (ERROR_SUCCESS,
               \<lparr>VirtualKey = word_of_int cur_vk, Unicode = 0,
                Flags = XINPUT_KEYSTROKE_KEYDOWN, UserIndex = 0, HidCode = 0\<rparr>,
               cur_x, cur_y))
         else (ERROR_EMPTY, keystroke, cur_x, cur_y))"

definition trigger_is_on :: "BYTE \<Rightarrow> bool" where
  "trigger_is_on v = (v > 30)"

text \<open>The table \<open>buttons[]\<close> of \<open>check_for_keystroke\<close>, pairs of mask and virtual key.\<close>

definition buttons :: "(WORD \<times> WORD) list" where
  "buttons =
     [(XINPUT_GAMEPAD_DPAD_UP, VK_PAD_DPAD_UP),
      (XINPUT_GAMEPAD_DPAD_DOWN, VK_PAD_DPAD_DOWN),
      (XINPUT_GAMEPAD_DPAD_LEFT, VK_PAD_DPAD_LEFT),
      (XINPUT_GAMEPAD_DPAD_RIGHT, VK_PAD_DPAD_RIGHT),
      (XINPUT_GAMEPAD_START, VK_PAD_START),
      (XINPUT_GAMEPAD_BACK, VK_PAD_BACK),
      (XINPUT_GAMEPAD_LEFT_THUMB, VK_PAD_LTHUMB_PRESS),
      (XINPUT_GAMEPAD_RIGHT_THUMB, VK_PAD_RTHUMB_PRESS),
      (XINPUT_GAMEPAD_LEFT_SHOULDER, VK_PAD_LSHOULDER),
      (XINPUT_GAMEPAD_RIGHT_SHOULDER, VK_PAD_RSHOULDER),
      (XINPUT_GAMEPAD_A, VK_PAD_A),
      (XINPUT_GAMEPAD_B, VK_PAD_B),
      (XINPUT_GAMEPAD_X, VK_PAD_X),
      (XINPUT_GAMEPAD_Y, VK_PAD_Y)]"

text \<open>
  The loop over the table, from entry \<open>i\<close> on (the list is the rest of the table): the
  first entry whose masked bits differ between the current pad and \<open>last_keystroke\<close>
  writes the keystroke, updates \<open>last_keystroke.wButtons\<close> and jumps to \<open>done\<close>
  (\<open>Some\<close>); \<open>None\<close> when the loop runs to its end. The masks are \<open>int\<close>s below
  \<open>0x10000\<close> and the pads' \<open>WORD\<close>s promote to non-negative \<open>int\<close>s, so the
  bit operations are those of 16-bit words.
\<close>

fun check_buttons ::
  "(WORD \<times> WORD) list \<Rightarrow> xinput_controller \<Rightarrow> (XINPUT_KEYSTROKE \<times> xinput_controller) option" where
  "check_buttons [] c = None"
| "check_buttons ((bmask, vk) # rest) c =
     (let cur = Gamepad (state c); last = last_keystroke c in
      if (wButtons cur AND bmask) XOR (wButtons last AND bmask) \<noteq> 0 then
        (if wButtons cur AND bmask \<noteq> 0 then
           Some (\<lparr>VirtualKey = vk, Unicode = 0, Flags = XINPUT_KEYSTROKE_KEYDOWN,
                   UserIndex = 0, HidCode = 0\<rparr>,
                 c\<lparr>last_keystroke := last\<lparr>wButtons := wButtons last OR bmask\<rparr>\<rparr>)
         else
           Some (\<lparr>VirtualKey = vk, Unicode = 0, Flags = XINPUT_KEYSTROKE_KEYUP,
                   UserIndex = 0, HidCode = 0\<rparr>,
                 c\<lparr>last_keystroke := last\<lparr>wButtons := wButtons last AND NOT bmask\<rparr>\<rparr>))
      else check_buttons rest c)"

text \<open>The keystroke is the caller's memory; \<open>ERROR_EMPTY\<close> leaves it as it was.\<close>

definition check_for_keystroke ::
  "XINPUT_KEYSTROKE \<Rightarrow> xinput_controller \<Rightarrow> retcode \<times> XINPUT_KEYSTROKE \<times> xinput_controller" where
  "check_for_keystroke keystroke c =
     (let cur = Gamepad (state c); last = last_keystroke c in
      case check_buttons buttons c of
        Some (k, c') \<Rightarrow> (ERROR_SUCCESS, k, c')
      | None \<Rightarrow>
          if trigger_is_on (bLeftTrigger cur) \<noteq> trigger_is_on (bLeftTrigger last) then
            (ERROR_SUCCESS,
             \<lparr>VirtualKey = VK_PAD_LTRIGGER, Unicode = 0,
              Flags = (if trigger_is_on (bLeftTrigger cur)
                       then XINPUT_KEYSTROKE_KEYDOWN else XINPUT_KEYSTROKE_KEYUP),
              UserIndex = 0, HidCode = 0\<rparr>,
             c\<lparr>last_keystroke := last\<lparr>bLeftTrigger := bLeftTrigger cur\<rparr>\<rparr>)
          else if trigger_is_on (bRightTrigger cur) \<noteq> trigger_is_on (bRightTrigger last) then
            (ERROR_SUCCESS,
             \<lparr>VirtualKey = VK_PAD_RTRIGGER, Unicode = 0,
              Flags = (if trigger_is_on (bRightTrigger cur)
                       then XINPUT_KEYSTROKE_KEYDOWN else XINPUT_KEYSTROKE_KEYUP),
              UserIndex = 0, HidCode = 0\<rparr>,
             c\<lparr>last_keystroke := last\<lparr>bRightTrigger := bRightTrigger cur\<rparr>\<rparr>)
          else
            (case check_joystick_keystroke keystroke (sThumbLX cur) (sThumbLY cur)
                    (sThumbLX last) (sThumbLY last) VK_PAD_LTHUMB_UP of
               (ret, k, lx, ly) \<Rightarrow>
                 let last1 = last\<lparr>sThumbLX := lx, sThumbLY := ly\<rparr> in
                 if ret = ERROR_SUCCESS then (ret, k, c\<lparr>last_keystroke := last1\<rparr>)
                 else
                   (case check_joystick_keystroke k (sThumbRX cur) (sThumbRY cur)
                           (sThumbRX last1) (sThumbRY last1) VK_PAD_RTHUMB_UP of
                      (ret2, k2, rx, ry) \<Rightarrow>
                        (ret2, k2,
                         c\<lparr>last_keystroke := last1\<lparr>sThumbRX := rx, sThumbRY := ry\<rparr>\<rparr>))))"

text \<open>\<open>XInputGetKeystroke\<close> does not start the worker and does not check the pointer.\<close>

definition XInputGetKeystroke ::
  "DWORD \<Rightarrow> DWORD \<Rightarrow> XINPUT_KEYSTROKE \<Rightarrow> globals \<Rightarrow> retcode \<times> XINPUT_KEYSTROKE \<times> globals" where
  "XInputGetKeystroke index reserved keystroke g =
     (if index \<ge> XUSER_MAX_COUNT \<and> index \<noteq> XUSER_INDEX_ANY then
        (ERROR_BAD_ARGUMENTS, keystroke, g)
      else if \<not> controller_is_connected (if index \<noteq> XUSER_INDEX_ANY then index else 0) g then
        (ERROR_DEVICE_NOT_CONNECTED, keystroke, g)
      else
        (case check_for_keystroke keystroke (controller g) of
           (ret, k, c') \<Rightarrow> (ret, k, g\<lparr>controller := c'\<rparr>)))"

section \<open>Capabilities queries\<close>

definition XInputGetCapabilitiesEx ::
  "DWORD \<Rightarrow> DWORD \<Rightarrow> DWORD \<Rightarrow> XINPUT_CAPABILITIES_EX \<Rightarrow> globals
     \<Rightarrow> retcode \<times> XINPUT_CAPABILITIES_EX \<times> globals" where
  "XInputGetCapabilitiesEx unk index flags caps_ex g =
     (let g1 = start_read_thread g in
      if index \<ge> XUSER_MAX_COUNT then (ERROR_BAD_ARGUMENTS, caps_ex, g1)
      else if \<not> controller_is_connected index g1 then (ERROR_DEVICE_NOT_CONNECTED, caps_ex, g1)
      else if flags AND XINPUT_FLAG_GAMEPAD \<noteq> 0
              \<and> SubType (caps (controller g1)) \<noteq> XINPUT_DEVSUBTYPE_GAMEPAD then
        (ERROR_DEVICE_NOT_CONNECTED, caps_ex, g1)
      else
        (ERROR_SUCCESS,
         caps_ex\<lparr>Capabilities := caps (controller g1), VendorId := 0x045E, ProductId := 0x02A1\<rparr>,
         g1))"

definition XInputGetCapabilities ::
  "DWORD \<Rightarrow> DWORD \<Rightarrow> XINPUT_CAPABILITIES \<Rightarrow> XINPUT_CAPABILITIES_EX \<Rightarrow> globals
     \<Rightarrow> retcode \<times> XINPUT_CAPABILITIES \<times> globals" where
  "XInputGetCapabilities index flags capabilities caps_ex g =
     (case XInputGetCapabilitiesEx 1 index flags caps_ex g of
        (ret, caps_ex1, g1) \<Rightarrow>
          (ret, if ret = ERROR_SUCCESS then Capabilities caps_ex1 else capabilities, g1))"

section \<open>Runs of the library\<close>

text \<open>
  What happens to the globals in a process: API calls by the host, datagrams handled by the
  worker (only while \<open>thread_running\<close> holds, the condition of its loop), and
  \<open>controller_destroy\<close> at process detach. A run starts from the static initialisers.
\<close>

datatype event =
    Frame buffer
  | Enable bool
  | SetState DWORD XINPUT_VIBRATION
  | GetState DWORD "XINPUT_STATE option"
  | GetStateEx DWORD "XINPUT_STATE option"
  | GetKeystroke DWORD DWORD XINPUT_KEYSTROKE
  | GetCapabilitiesEx DWORD DWORD DWORD XINPUT_CAPABILITIES_EX
  | Destroy

fun step :: "event \<Rightarrow> globals \<Rightarrow> globals" where
  "step (Frame b) g = (if thread_running g then controller_read_thread_frame b g else g)"
| "step (Enable e) g = XInputEnable e g"
| "step (SetState i v) g = snd (XInputSetState i v g)"
| "step (GetState i st) g = snd (snd (XInputGetState i st g))"
| "step (GetStateEx i st) g = snd (snd (XInputGetStateEx i st g))"
| "step (GetKeystroke i r k) g = snd (snd (XInputGetKeystroke i r k g))"
| "step (GetCapabilitiesEx u i f c) g = snd (snd (XInputGetCapabilitiesEx u i f c g))"
| "step Destroy g = controller_destroy g"

definition run :: "event list \<Rightarrow> globals \<Rightarrow> globals" where
  "run evs g = fold step evs g"

text \<open>The indices that the \<open>GetState\<close> calls of a run passed on to the remapping: those
  of the calls with a non-null pointer and an index below \<open>XUSER_MAX_COUNT\<close>.\<close>

fun queried :: "event list \<Rightarrow> DWORD list" where
  "queried [] = []"
| "queried (GetState i (Some st) # evs) = (if i < XUSER_MAX_COUNT then i # queried evs else queried evs)"
| "queried (GetStateEx i (Some st) # evs) = (if i < XUSER_MAX_COUNT then i # queried evs else queried evs)"
| "queried (e # evs) = queried evs"

text \<open>The capabilities are the record that \<open>controller_check_caps\<close> writes (it does not
  depend on the controller it is applied to).\<close>

definition caps_ready :: "globals \<Rightarrow> bool" where
  "caps_ready g = (caps (controller g) = caps (controller_check_caps initial_controller))"

section \<open>Scenario data and properties\<close>

text \<open>
  The frames of the end-to-end scenarios: the discovery reply with id 42, and the state
  frame with status 1, id 42, buttons 0x0001, dpad 4, lx 0, ly 30000 (bytes 0x30 0x75),
  rx 0 and ry 0. \<open>just_connected\<close> is the runtime after the first API call has started
  the worker and the worker has handled the discovery reply.
\<close>

definition frame_discovery :: buffer where
  "frame_discovery = [8, 42, 0, 0, 0] @ replicate 59 0"

definition frame_state_update :: buffer where
  "frame_state_update = [9, 1, 42, 0, 0, 0, 0x01, 0x00, 4, 0, 0, 0x30, 0x75, 0, 0, 0, 0] @ replicate 47 0"

text \<open>A state frame is accepted when its status byte is 1 and its id is the stored one: the
  negation of the test at the head of \<open>controller_update_state\<close>.\<close>

definition frame_accepted :: "buffer \<Rightarrow> xinput_controller \<Rightarrow> bool" where
  "frame_accepted b c = (b ! 1 = 1 \<and> read_int b 2 = id_c c)"

definition just_connected :: globals where
  "just_connected = controller_read_thread_frame frame_discovery (start_read_thread initial_globals)"

text \<open>The state frame of scenario 3, with id 43, and a connected controller whose packet
  counter stands at its last value.\<close>

definition frame_id_mismatch :: buffer where
  "frame_id_mismatch = [9, 1, 43, 0, 0, 0, 0x01, 0x00, 4, 0, 0, 0x30, 0x75, 0, 0, 0, 0] @ replicate 47 0"

definition packet_wrap_controller :: xinput_controller where
  "packet_wrap_controller =
     (controller just_connected)\<lparr>state := zero_state\<lparr>dwPacketNumber := 0xFFFFFFFF\<rparr>\<rparr>"



text \<open>
  Notions for stating the stick properties. An event is a keystroke with the fixed zero
  fields. The direction of a stick position is the pair of its quantized axes; it is null
  (the stick is centred) when both are OFF, and its virtual key is the stick's base key plus
  \<open>js_vk_offs\<close>. \<open>keys_quiet\<close> says that the stages before the sticks have nothing to
  report: no table button differs and both triggers have the on-state they had.
\<close>

definition key_event :: "WORD \<Rightarrow> WORD \<Rightarrow> XINPUT_KEYSTROKE" where
  "key_event vk flags = \<lparr>VirtualKey = vk, Unicode = 0, Flags = flags, UserIndex = 0, HidCode = 0\<rparr>"

definition stick_vk :: "WORD \<Rightarrow> SHORT \<Rightarrow> SHORT \<Rightarrow> WORD" where
  "stick_vk base_vk x y = base_vk + js_vk_offs (joystick_state x) (joystick_state y)"

definition stick_centered :: "SHORT \<Rightarrow> SHORT \<Rightarrow> bool" where
  "stick_centered x y = (joystick_state x = JS_STATE_OFF \<and> joystick_state y = JS_STATE_OFF)"

definition same_direction :: "SHORT \<Rightarrow> SHORT \<Rightarrow> SHORT \<Rightarrow> SHORT \<Rightarrow> bool" where
  "same_direction x y x' y' =
     (joystick_state x = joystick_state x' \<and> joystick_state y = joystick_state y')"

definition keys_quiet :: "xinput_controller \<Rightarrow> bool" where
  "keys_quiet c =
     ((\<forall>p \<in> set buttons. wButtons (Gamepad (state c)) AND fst p
                            = wButtons (last_keystroke c) AND fst p)
      \<and> trigger_is_on (bLeftTrigger (Gamepad (state c)))
          = trigger_is_on (bLeftTrigger (last_keystroke c))
      \<and> trigger_is_on (bRightTrigger (Gamepad (state c)))
          = trigger_is_on (bRightTrigger (last_keystroke c)))"

text \<open>Scenario 5: connected, the left stick now at (25000, 0), and \<open>last_keystroke\<close>
  remembering (0, 25000), for which KEYDOWN was delivered.\<close>

definition stick_rotated :: globals where
  "stick_rotated = just_connected\<lparr>controller := (controller just_connected)
     \<lparr>state := \<lparr>dwPacketNumber = 2,
          Gamepad = zero_gamepad\<lparr>sThumbLX := 25000, sThumbLY := 0\<rparr>\<rparr>,
      last_keystroke := zero_gamepad\<lparr>sThumbLX := 0, sThumbLY := 25000\<rparr>\<rparr>\<rparr>"

text \<open>
  The wire value of an axis, from the spec's frame layout: the signed 16-bit little-endian
  integer in the two bytes at an offset of the frame, written out arithmetically. The
  axes of a pad sample are its four thumb fields read as signed integers.
\<close>

definition wire_short :: "buffer \<Rightarrow> nat \<Rightarrow> int" where
  "wire_short b n =
     (if uint (b ! n) + 256 * uint (b ! (n + 1)) < 32768
      then uint (b ! n) + 256 * uint (b ! (n + 1))
      else uint (b ! n) + 256 * uint (b ! (n + 1)) - 65536)"

definition pad_axes :: "XINPUT_STATE \<Rightarrow> int \<times> int \<times> int \<times> int" where
  "pad_axes s = (sint (sThumbLX (Gamepad s)), sint (sThumbLY (Gamepad s)),
     sint (sThumbRX (Gamepad s)), sint (sThumbRY (Gamepad s)))"

text \<open>Two accepted state frames for id 42: one with lx 1000, ly 30000, rx -2000, ry -123 and
  the buttons word 0x0401, and one with ly -32768 and everything else at rest.\<close>

definition frame_axes :: buffer where
  "frame_axes = [9, 1, 42, 0, 0, 0, 0x01, 0x04, 4, 0xE8, 0x03, 0x30, 0x75, 0x30, 0xF8,
     0x85, 0xFF] @ replicate 47 0"

definition frame_ly_min :: buffer where
  "frame_ly_min = [9, 1, 42, 0, 0, 0, 0, 0, 8, 0, 0, 0x00, 0x80, 0, 0, 0, 0] @ replicate 47 0"

text \<open>
  A run in which a button changes together with the left stick: a state frame moves the
  stick up (wire ly -25000), a poll delivers the KEYDOWN for it, and the next state frame
  has A pressed and the stick to the right (lx 25000). \<open>stick_up_seen\<close> is the runtime
  after the first of these frames, \<open>stick_rotated_a_pressed\<close> after the second.
\<close>

definition frame_stick_up :: buffer where
  "frame_stick_up = [9, 1, 42, 0, 0, 0, 0, 0, 8, 0, 0, 0x58, 0x9E, 0, 0, 0, 0] @ replicate 47 0"

definition frame_stick_right_a :: buffer where
  "frame_stick_right_a = [9, 1, 42, 0, 0, 0, 0x01, 0x00, 8, 0xA8, 0x61, 0, 0, 0, 0, 0, 0]
     @ replicate 47 0"

definition stick_up_seen :: globals where
  "stick_up_seen = just_connected\<lparr>controller := (controller just_connected)
     \<lparr>state := \<lparr>dwPacketNumber = 1, Gamepad = zero_gamepad\<lparr>sThumbLY := 25000\<rparr>\<rparr>\<rparr>\<rparr>"

definition stick_rotated_a_pressed :: globals where
  "stick_rotated_a_pressed = just_connected\<lparr>controller := (controller just_connected)
     \<lparr>state := \<lparr>dwPacketNumber = 2,
          Gamepad = zero_gamepad\<lparr>wButtons := XINPUT_GAMEPAD_A, sThumbLX := 25000\<rparr>\<rparr>,
      last_keystroke := zero_gamepad\<lparr>sThumbLY := 25000\<rparr>\<rparr>\<rparr>"

section \<open>Quantizer thresholds\<close>

lemmas IDX_BUTTON_defs =
  IDX_BUTTON_A_def IDX_BUTTON_B_def IDX_BUTTON_X_def IDX_BUTTON_Y_def IDX_BUTTON_L1_def
  IDX_BUTTON_R1_def IDX_BUTTON_L2_def IDX_BUTTON_R2_def IDX_BUTTON_SELECT_def
  IDX_BUTTON_START_def IDX_BUTTON_L3_def IDX_BUTTON_R3_def

lemmas XINPUT_GAMEPAD_defs =
  XINPUT_GAMEPAD_DPAD_UP_def XINPUT_GAMEPAD_DPAD_DOWN_def XINPUT_GAMEPAD_DPAD_LEFT_def
  XINPUT_GAMEPAD_DPAD_RIGHT_def XINPUT_GAMEPAD_START_def XINPUT_GAMEPAD_BACK_def
  XINPUT_GAMEPAD_LEFT_THUMB_def XINPUT_GAMEPAD_RIGHT_THUMB_def
  XINPUT_GAMEPAD_LEFT_SHOULDER_def XINPUT_GAMEPAD_RIGHT_SHOULDER_def XINPUT_GAMEPAD_A_def
  XINPUT_GAMEPAD_B_def XINPUT_GAMEPAD_X_def XINPUT_GAMEPAD_Y_def

lemmas VK_PAD_defs =
  VK_PAD_A_def VK_PAD_B_def VK_PAD_X_def VK_PAD_Y_def VK_PAD_RSHOULDER_def
  VK_PAD_LSHOULDER_def VK_PAD_LTRIGGER_def VK_PAD_RTRIGGER_def VK_PAD_DPAD_UP_def
  VK_PAD_DPAD_DOWN_def VK_PAD_DPAD_LEFT_def VK_PAD_DPAD_RIGHT_def VK_PAD_START_def
  VK_PAD_BACK_def VK_PAD_LTHUMB_PRESS_def VK_PAD_RTHUMB_PRESS_def VK_PAD_LTHUMB_UP_def
  VK_PAD_RTHUMB_UP_def

lemmas JS_STATE_defs = JS_STATE_OFF_def JS_STATE_LOW_def JS_STATE_HIGH_def

lemma trigger_is_on_unat: "trigger_is_on v = (30 < unat v)"
  by (simp add: trigger_is_on_def word_less_nat_alt)

lemma joystick_state_sint:
  "joystick_state v =
     (if 20000 < sint v then JS_STATE_HIGH
      else if sint v < - 20000 then JS_STATE_LOW else JS_STATE_OFF)"
  by (simp add: joystick_state_def word_sless_alt)

text \<open>
  Claim C8. A trigger is on exactly when its byte exceeds 30, so 30 is off and 31 is on. An
  axis, read as a signed 16-bit value, quantizes to OFF exactly on -20000..20000, to LOW
  exactly at -20001 and below, and to HIGH exactly at 20001 and above.
\<close>

theorem quantizer_thresholds:
  "trigger_is_on v = (30 < unat v)
   \<and> trigger_is_on 30 = False \<and> trigger_is_on 31 = True
   \<and> (joystick_state a = JS_STATE_OFF) = (- 20000 \<le> sint a \<and> sint a \<le> 20000)
   \<and> (joystick_state a = JS_STATE_LOW) = (sint a \<le> - 20001)
   \<and> (joystick_state a = JS_STATE_HIGH) = (20001 \<le> sint a)"
  by (auto simp: trigger_is_on_unat joystick_state_sint JS_STATE_defs)

section \<open>State frames\<close>

lemma negate_short_eq: "negate_short v = - v"
proof -
  have a: "(scast v :: 32 word) = word_of_int (sint v)"
    by (rule scast_eq)
  have b: "- (word_of_int (sint v) :: 32 word) = word_of_int (- sint v)"
    by simp
  have c: "(ucast :: 32 word \<Rightarrow> 16 word) (word_of_int (- sint v)) = word_of_int (- sint v)"
    by (rule ucast_down_wi) (simp add: is_down)
  have d: "word_of_int (- sint v) = - v"
    by simp
  show ?thesis
    unfolding negate_short_def a b c d ..
qed

lemma controller_update_state_rejected:
  "\<not> frame_accepted b c \<Longrightarrow>
   controller_update_state b c = c\<lparr>connected := False, state := zero_state\<rparr>"
  by (auto simp: controller_update_state_def frame_accepted_def Let_def)

lemma controller_update_state_accepted:
  "frame_accepted b c \<Longrightarrow>
   controller_update_state b c =
     c\<lparr>state := \<lparr>dwPacketNumber = dwPacketNumber (state c) + 1,
          Gamepad = \<lparr>wButtons = decode_buttons (read_short b 6) OR decode_dpad (b ! 8),
            bLeftTrigger = (if button_set (read_short b 6) 10 then 255 else 0),
            bRightTrigger = (if button_set (read_short b 6) 11 then 255 else 0),
            sThumbLX = read_short b 9,
            sThumbLY = - read_short b 11,
            sThumbRX = read_short b 13,
            sThumbRY = - read_short b 15\<rparr>\<rparr>\<rparr>"
  by (simp add: controller_update_state_def frame_accepted_def Let_def negate_short_eq)

lemma just_connected_eq:
  "just_connected =
     \<lparr>controller = \<lparr>caps = caps (controller_check_caps initial_controller), state = zero_state,
        last_keystroke = zero_gamepad, enabled = True, connected = True, id_c = 42\<rparr>,
      thread_running = True, xinput_min_index = 3, init_once = True\<rparr>"
  by (simp add: just_connected_def controller_read_thread_frame_def frame_discovery_def
      start_read_thread_def initial_globals_def initial_controller_def
      REQUEST_CODE_GET_GAMEPAD_def read_int_def controller_init_def controller_check_caps_def
      word_sless_alt)

lemma upt_10: "[0..<10] = [0, 1, 2, 3, 4, 5, 6, 7, 8, 9]"
  by (simp add: upt_rec)

lemma decode_scenario: "decode_buttons 1 = XINPUT_GAMEPAD_A"
  by (simp add: decode_buttons_def upt_10 button_set_def button_flag_def IDX_BUTTON_defs)

lemma frame_state_update_accepted: "frame_accepted frame_state_update (controller just_connected)"
  by (simp add: frame_accepted_def frame_state_update_def just_connected_eq read_int_def)

lemma frame_state_update_fields:
  "read_short frame_state_update 6 = 1" "frame_state_update ! 8 = 4"
  "read_short frame_state_update 9 = 0" "read_short frame_state_update 11 = 30000"
  "read_short frame_state_update 13 = 0" "read_short frame_state_update 15 = 0"
  "frame_state_update ! 0 = 9"
  by (simp_all add: frame_state_update_def read_short_def)

lemma button_set_1: "button_set 1 10 = False" "button_set 1 11 = False"
  by (simp_all add: button_set_def)

lemma idx_cases:
  assumes "(i :: 32 word) < 4"
  shows "i = 0 \<or> i = 1 \<or> i = 2 \<or> i = 3"
proof -
  have *: "i = of_nat n" if "unat i = n" for n
    using that by auto
  from assms have "unat i < 4"
    by (simp add: word_less_nat_alt)
  then have "unat i = 0 \<or> unat i = 1 \<or> unat i = 2 \<or> unat i = 3"
    by arith
  then show ?thesis
    using * [of 0] * [of 1] * [of 2] * [of 3] by auto
qed

lemma min_index_cases:
  assumes "(m :: 8 word) \<le> 3"
  shows "m = 0 \<or> m = 1 \<or> m = 2 \<or> m = 3"
proof -
  have *: "m = of_nat n" if "unat m = n" for n
    using that by auto
  from assms have "unat m \<le> 3"
    by (simp add: word_le_nat_alt)
  then have "unat m = 0 \<or> unat m = 1 \<or> unat m = 2 \<or> unat m = 3"
    by arith
  then show ?thesis
    using * [of 0] * [of 1] * [of 2] * [of 3] by auto
qed

lemma start_read_thread_simps:
  "xinput_min_index (start_read_thread g) = xinput_min_index g"
  "controller (start_read_thread g) = controller g"
  by (simp_all add: start_read_thread_def)

lemma word32_4_le: "\<not> (4 :: 32 word) \<le> 0" "\<not> (4 :: 32 word) \<le> 1"
  "\<not> (4 :: 32 word) \<le> 2" "\<not> (4 :: 32 word) \<le> 3"
  by (simp_all add: word_le_nat_alt)

lemma xinput_get_state_in_range:
  assumes "index < XUSER_MAX_COUNT" and "xinput_min_index g \<le> 3"
  shows "xinput_get_state index (Some st) g =
     (if index \<le> ucast (xinput_min_index g) then
        (if connected (controller g) then ERROR_SUCCESS else ERROR_DEVICE_NOT_CONNECTED,
         Some (if connected (controller g) then state (controller g) else st),
         (start_read_thread g)\<lparr>xinput_min_index := ucast index\<rparr>)
      else (ERROR_DEVICE_NOT_CONNECTED, Some st, start_read_thread g))"
proof -
  define g1 where "g1 = start_read_thread g"
  have m: "xinput_min_index g1 = xinput_min_index g"
    and c: "controller g1 = controller g"
    by (simp_all add: g1_def start_read_thread_simps)
  have s: "g1\<lparr>xinput_min_index := xinput_min_index g\<rparr> = g1"
    using m by simp
  from assms(1) have "index = 0 \<or> index = 1 \<or> index = 2 \<or> index = 3"
    by (simp add: XUSER_MAX_COUNT_def idx_cases)
  moreover from assms(2) have "xinput_min_index g = 0 \<or> xinput_min_index g = 1
      \<or> xinput_min_index g = 2 \<or> xinput_min_index g = 3"
    by (rule min_index_cases)
  ultimately show ?thesis
    unfolding xinput_get_state_def Let_def g1_def [symmetric] XUSER_MAX_COUNT_def
      controller_is_connected_def
    using s
    by (elim disjE) (simp_all add: m c word32_4_le word_less_nat_alt word_le_nat_alt)
qed



lemma xinput_get_state_effective:
  assumes "index < XUSER_MAX_COUNT" and "index \<le> scast (xinput_min_index g)"
  shows "xinput_get_state index (Some st) g =
     (if connected (controller g) then ERROR_SUCCESS else ERROR_DEVICE_NOT_CONNECTED,
      Some (if connected (controller g) then state (controller g) else st),
      (start_read_thread g)\<lparr>xinput_min_index := ucast index\<rparr>)"
proof -
  define g1 where "g1 = start_read_thread g"
  have m: "xinput_min_index g1 = xinput_min_index g"
    and c: "controller g1 = controller g"
    by (simp_all add: g1_def start_read_thread_simps)
  from assms(1) have i: "index = 0 \<or> index = 1 \<or> index = 2 \<or> index = 3"
    by (simp add: XUSER_MAX_COUNT_def idx_cases)
  show ?thesis
  proof (cases "index < scast (xinput_min_index g)")
    case True
    with i show ?thesis
      unfolding xinput_get_state_def Let_def g1_def [symmetric] XUSER_MAX_COUNT_def
        controller_is_connected_def
      by (elim disjE) (simp_all add: m c word32_4_le)
  next
    case False
    with assms(2) have e: "index = scast (xinput_min_index g)"
      by simp
    have "(ucast :: 32 word \<Rightarrow> 8 word) = scast"
      by (rule down_cast_same) (simp add: is_down)
    moreover have "(scast (scast (xinput_min_index g) :: 32 word) :: 8 word) = xinput_min_index g"
      by (rule scast_up_scast_id) (simp add: is_up)
    ultimately have u: "(ucast (scast (xinput_min_index g) :: 32 word) :: 8 word)
        = xinput_min_index g"
      by simp
    have s: "g1\<lparr>xinput_min_index := xinput_min_index g\<rparr> = g1"
      using m by simp
    from assms(1) have n: "\<not> 4 \<le> (scast (xinput_min_index g) :: 32 word)"
      unfolding e XUSER_MAX_COUNT_def by (simp add: not_le)
    show ?thesis
      unfolding xinput_get_state_def Let_def g1_def [symmetric] XUSER_MAX_COUNT_def
        controller_is_connected_def e
      by (simp add: m c u s n)
  qed
qed

lemma xinput_get_state_disconnected:
  assumes "index < XUSER_MAX_COUNT" and "\<not> connected (controller g)"
  shows "fst (xinput_get_state index (Some st) g) = ERROR_DEVICE_NOT_CONNECTED"
    and "fst (snd (xinput_get_state index (Some st) g)) = Some st"
  using assms
  by (auto simp: xinput_get_state_def Let_def controller_is_connected_def
      start_read_thread_simps)

lemma XInputGetState_not_success:
  "fst (xinput_get_state index st g) \<noteq> ERROR_SUCCESS \<Longrightarrow>
   XInputGetState index st g = xinput_get_state index st g"
  by (cases "xinput_get_state index st g") (simp add: XInputGetState_def)

lemma XInputGetState_success:
  "fst (xinput_get_state index st g) = ERROR_SUCCESS \<Longrightarrow>
   fst (XInputGetState index st g) = ERROR_SUCCESS \<and>
   fst (snd (XInputGetState index st g)) =
     map_option (\<lambda>s. s\<lparr>Gamepad := (Gamepad s)\<lparr>wButtons :=
        wButtons (Gamepad s) AND NOT XINPUT_GAMEPAD_GUIDE\<rparr>\<rparr>) (fst (snd (xinput_get_state index st g)))"
  by (cases "xinput_get_state index st g") (simp add: XInputGetState_def)

text \<open>Scenario 2, evaluated.\<close>

lemma scenario_state_update:
  "state (controller just_connected) = zero_state
   \<and> connected (controller just_connected) \<and> id_c (controller just_connected) = 42
   \<and> fst (XInputGetState 0 (Some st) (controller_read_thread_frame frame_state_update just_connected))
       = ERROR_SUCCESS
   \<and> fst (snd (XInputGetState 0 (Some st) (controller_read_thread_frame frame_state_update just_connected)))
       = Some \<lparr>dwPacketNumber = 1,
           Gamepad = \<lparr>wButtons = XINPUT_GAMEPAD_A OR XINPUT_GAMEPAD_DPAD_DOWN,
             bLeftTrigger = 0, bRightTrigger = 0,
             sThumbLX = 0, sThumbLY = - 30000, sThumbRX = 0, sThumbRY = 0\<rparr>\<rparr>
   \<and> sint (- 30000 :: SHORT) = - 30000"
proof -
  define g2 where "g2 = controller_read_thread_frame frame_state_update just_connected"
  have c: "controller g2 = controller_update_state frame_state_update (controller just_connected)"
    by (simp add: g2_def controller_read_thread_frame_def frame_state_update_fields
        REQUEST_CODE_GET_GAMEPAD_def REQUEST_CODE_GET_GAMEPAD_STATE_def just_connected_eq)
  have g: "(XINPUT_GAMEPAD_A OR XINPUT_GAMEPAD_DPAD_DOWN) AND NOT XINPUT_GAMEPAD_GUIDE
      = XINPUT_GAMEPAD_A OR XINPUT_GAMEPAD_DPAD_DOWN"
    by (simp add: XINPUT_GAMEPAD_defs XINPUT_GAMEPAD_GUIDE_def)
  have d: "decode_dpad 4 = XINPUT_GAMEPAD_DPAD_DOWN"
    by (simp add: decode_dpad_def)
  have u: "controller g2 = (controller just_connected)
      \<lparr>state := \<lparr>dwPacketNumber = 1,
           Gamepad = \<lparr>wButtons = XINPUT_GAMEPAD_A OR XINPUT_GAMEPAD_DPAD_DOWN,
             bLeftTrigger = 0, bRightTrigger = 0,
             sThumbLX = 0, sThumbLY = - 30000, sThumbRX = 0, sThumbRY = 0\<rparr>\<rparr>\<rparr>"
    unfolding c controller_update_state_accepted [OF frame_state_update_accepted]
    by (simp add: frame_state_update_fields decode_scenario d button_set_1)
       (simp add: just_connected_eq zero_state_def)
  have x: "xinput_get_state 0 (Some st) g2 =
      (ERROR_SUCCESS, Some (state (controller g2)), (start_read_thread g2)\<lparr>xinput_min_index := 0\<rparr>)"
    by (simp add: xinput_get_state_effective XUSER_MAX_COUNT_def u just_connected_eq)
  have j: "state (controller just_connected) = zero_state
      \<and> connected (controller just_connected) \<and> id_c (controller just_connected) = 42"
    by (simp add: just_connected_eq)
  show ?thesis
    unfolding g2_def [symmetric]
    using XInputGetState_success [of 0 "Some st" g2] j
    by (simp add: x u g)
qed

section \<open>The capabilities record\<close>

text \<open>
  Claim C1. After the first handshake the stored capabilities have type and subtype gamepad
  and the button mask 0xFFFF, but \<open>(1u << (sizeof(field) + 1)) - 1\<close> shifts by the size
  in bytes plus one: the trigger bytes are 3 and the four thumb fields are 7, not the
  saturated values (255; 32767 or the all-ones pattern 65535).
\<close>

theorem capabilities_after_first_handshake:
  "caps (controller just_connected) =
     \<lparr>Type = XINPUT_DEVTYPE_GAMEPAD, SubType = XINPUT_DEVSUBTYPE_GAMEPAD, Flags_caps = 0,
      Gamepad_caps = \<lparr>wButtons = 0xffff, bLeftTrigger = 3, bRightTrigger = 3,
        sThumbLX = 7, sThumbLY = 7, sThumbRX = 7, sThumbRY = 7\<rparr>,
      Vibration = \<lparr>wLeftMotorSpeed = 0, wRightMotorSpeed = 0\<rparr>\<rparr>
   \<and> (3 :: BYTE) \<noteq> 255 \<and> (7 :: SHORT) \<noteq> 32767 \<and> (7 :: SHORT) \<noteq> 65535"
  by (simp add: just_connected_eq controller_check_caps_def range_mask_def sizeof_BYTE_def
      sizeof_SHORT_def initial_controller_def)

section \<open>The packet counter\<close>

lemma id_c_controller_update_state: "id_c (controller_update_state b c) = id_c c"
  by (simp add: controller_update_state_def Let_def)

lemma frame_accepted_controller_update_state:
  "frame_accepted f (controller_update_state b c) = frame_accepted f c"
  by (simp add: frame_accepted_def id_c_controller_update_state)

lemma packet_number_step:
  "frame_accepted b c \<Longrightarrow>
   dwPacketNumber (state (controller_update_state b c)) = dwPacketNumber (state c) + 1"
  by (simp add: controller_update_state_accepted)

lemma packet_number_fold:
  "\<forall>f \<in> set frames. frame_accepted f c \<Longrightarrow>
   dwPacketNumber (state (fold controller_update_state frames c))
     = dwPacketNumber (state c) + of_nat (length frames)"
proof (induction frames arbitrary: c)
  case Nil
  then show ?case by simp
next
  case (Cons f frames)
  then have "\<forall>x \<in> set frames. frame_accepted x (controller_update_state f c)"
    by (simp add: frame_accepted_controller_update_state)
  then have "dwPacketNumber (state (fold controller_update_state frames (controller_update_state f c)))
      = dwPacketNumber (state (controller_update_state f c)) + of_nat (length frames)"
    by (rule Cons.IH)
  with Cons.prems show ?case
    by (simp add: packet_number_step)
qed

lemma unat_plus_of_nat:
  assumes "unat (p :: 32 word) + n < 2 ^ 32"
  shows "unat (p + of_nat n) = unat p + n"
proof -
  from assms have "n < 2 ^ 32" by simp
  then have "unat (of_nat n :: 32 word) = n"
    by (simp add: unat_of_nat)
  with assms show ?thesis
    by (simp add: unat_word_ariths)
qed

text \<open>
  Claim C7, amended. Over a sequence of accepted state frames the packet number grows by
  one per frame modulo \<open>2 ^ 32\<close>: after the sequence it is the old value plus the number
  of frames, as 32-bit words. It increases strictly at every frame of the sequence
  provided the counter does not pass its last value \<open>0xFFFFFFFF\<close> on the way.
\<close>

theorem packet_number_increments:
  assumes "\<forall>f \<in> set frames. frame_accepted f c"
  shows "dwPacketNumber (state (fold controller_update_state frames c))
           = dwPacketNumber (state c) + of_nat (length frames)
     \<and> (unat (dwPacketNumber (state c)) + length frames < 2 ^ 32 \<longrightarrow>
          (\<forall>k < length frames.
             dwPacketNumber (state (fold controller_update_state (take k frames) c))
               < dwPacketNumber (state (fold controller_update_state (take (Suc k) frames) c))))"
proof (intro conjI impI allI)
  show "dwPacketNumber (state (fold controller_update_state frames c))
           = dwPacketNumber (state c) + of_nat (length frames)"
    using assms by (rule packet_number_fold)
next
  fix k
  assume b: "unat (dwPacketNumber (state c)) + length frames < 2 ^ 32" and k: "k < length frames"
  have t: "\<forall>f \<in> set (take n frames). frame_accepted f c" for n
    using assms by (meson in_set_takeD)
  from k have l: "length (take k frames) = k" "length (take (Suc k) frames) = Suc k"
    by simp_all
  have "unat (dwPacketNumber (state c) + of_nat k) = unat (dwPacketNumber (state c)) + k"
    using b k by (intro unat_plus_of_nat) simp
  moreover have "unat (dwPacketNumber (state c) + of_nat (Suc k))
      = unat (dwPacketNumber (state c)) + Suc k"
    using b k by (intro unat_plus_of_nat) simp
  ultimately have "dwPacketNumber (state c) + of_nat k < dwPacketNumber (state c) + of_nat (Suc k)"
    by (simp add: word_less_nat_alt)
  then show "dwPacketNumber (state (fold controller_update_state (take k frames) c))
               < dwPacketNumber (state (fold controller_update_state (take (Suc k) frames) c))"
    by (simp only: packet_number_fold [OF t] l)
qed

theorem packet_number_increments_witness:
  "dwPacketNumber (state (fold controller_update_state [frame_state_update, frame_state_update]
       (controller just_connected))) = 2
   \<and> dwPacketNumber (state (fold controller_update_state (take 0 [frame_state_update, frame_state_update])
       (controller just_connected)))
     < dwPacketNumber (state (fold controller_update_state (take (Suc 0) [frame_state_update, frame_state_update])
       (controller just_connected)))"
proof -
  have a: "\<forall>f \<in> set [frame_state_update, frame_state_update].
      frame_accepted f (controller just_connected)"
    by (simp add: frame_state_update_accepted)
  have z: "dwPacketNumber (state (controller just_connected)) = 0"
    by (simp add: just_connected_eq zero_state_def)
  note t = packet_number_increments [OF a]
  from t have "dwPacketNumber (state (fold controller_update_state
      [frame_state_update, frame_state_update] (controller just_connected))) = 2"
    by (simp add: z)
  moreover from t have "\<forall>k < length [frame_state_update, frame_state_update].
      dwPacketNumber (state (fold controller_update_state
          (take k [frame_state_update, frame_state_update]) (controller just_connected)))
      < dwPacketNumber (state (fold controller_update_state
          (take (Suc k) [frame_state_update, frame_state_update]) (controller just_connected)))"
    by (simp add: z)
  then have "dwPacketNumber (state (fold controller_update_state
          (take 0 [frame_state_update, frame_state_update]) (controller just_connected)))
      < dwPacketNumber (state (fold controller_update_state
          (take (Suc 0) [frame_state_update, frame_state_update]) (controller just_connected)))"
    by (rule allE [where x = 0]) simp
  ultimately show ?thesis
    by (rule conjI)
qed

lemma packet_wrap_accepted: "frame_accepted frame_state_update packet_wrap_controller"
  using frame_state_update_accepted
  by (simp add: frame_accepted_def packet_wrap_controller_def)

text \<open>
  Claim C7 as stated fails at the wrap-around: the frame accepted at packet number
  \<open>0xFFFFFFFF\<close> sets it to 0, which is not larger. The worker reaches that value after
  4294967295 accepted frames from the just-connected state, and is back at 0 after
  4294967296.
\<close>

theorem packet_number_wraps:
  "frame_accepted frame_state_update packet_wrap_controller
   \<and> dwPacketNumber (state packet_wrap_controller) = 0xFFFFFFFF
   \<and> dwPacketNumber (state (controller_update_state frame_state_update packet_wrap_controller)) = 0
   \<and> \<not> dwPacketNumber (state packet_wrap_controller)
         < dwPacketNumber (state (controller_update_state frame_state_update packet_wrap_controller))
   \<and> dwPacketNumber (state (fold controller_update_state (replicate 4294967295 frame_state_update)
          (controller just_connected))) = 0xFFFFFFFF
   \<and> dwPacketNumber (state (fold controller_update_state (replicate 4294967296 frame_state_update)
          (controller just_connected))) = 0"
proof -
  have s: "dwPacketNumber (state packet_wrap_controller) = 0xFFFFFFFF"
    by (simp add: packet_wrap_controller_def)
  have n: "dwPacketNumber (state (controller_update_state frame_state_update packet_wrap_controller)) = 0"
    by (simp only: packet_number_step [OF packet_wrap_accepted] s) simp
  have a: "\<forall>f \<in> set (replicate k frame_state_update).
      frame_accepted f (controller just_connected)" for k
    by (simp add: frame_state_update_accepted)
  have z: "dwPacketNumber (state (controller just_connected)) = 0"
    by (simp add: just_connected_eq zero_state_def)
  have r: "dwPacketNumber (state (fold controller_update_state (replicate 4294967295 frame_state_update)
          (controller just_connected))) = 0xFFFFFFFF"
    by (simp only: packet_number_fold [OF a] z length_replicate) simp
  have r': "dwPacketNumber (state (fold controller_update_state (replicate 4294967296 frame_state_update)
          (controller just_connected))) = 0"
    by (simp only: packet_number_fold [OF a] z length_replicate) simp
  show ?thesis
    by (simp only: s n r r' packet_wrap_accepted) simp
qed

section \<open>Inconsistent state frames\<close>

lemma controller_read_thread_frame_state:
  "buffer ! 0 = REQUEST_CODE_GET_GAMEPAD_STATE \<Longrightarrow> connected (controller g) \<Longrightarrow>
   controller_read_thread_frame buffer g = g\<lparr>controller := controller_update_state buffer (controller g)\<rparr>"
  by (simp add: controller_read_thread_frame_def REQUEST_CODE_GET_GAMEPAD_def
      REQUEST_CODE_GET_GAMEPAD_STATE_def)

lemma controller_read_thread_frame_announce:
  "r ! 0 = REQUEST_CODE_GET_GAMEPAD \<Longrightarrow> 0 <s read_int r 1 \<Longrightarrow> \<not> connected (controller g) \<Longrightarrow>
   controller_read_thread_frame r g
     = g\<lparr>controller := controller_init ((controller g)\<lparr>id_c := read_int r 1\<rparr>)\<rparr>"
  by (simp add: controller_read_thread_frame_def Let_def)

lemma zero_state_strip_guide:
  "zero_state\<lparr>Gamepad := (Gamepad zero_state)\<lparr>wButtons :=
      wButtons (Gamepad zero_state) AND NOT XINPUT_GAMEPAD_GUIDE\<rparr>\<rparr> = zero_state"
  by (simp add: zero_state_def zero_gamepad_def)

text \<open>
  Claim C3. A state frame handled while the controller is connected, whose status byte is
  not 1 or whose id is not the stored remote id, clears \<open>connected\<close>, sets the whole
  state (packet number and pad) to zero and leaves every other field and global as it
  was. The next \<open>XInputGetState\<close> or \<open>XInputGetStateEx\<close>, at any index below 4 and so
  at the effective index 0, returns \<open>ERROR_DEVICE_NOT_CONNECTED\<close>; and once a discovery
  reply with a positive id has reconnected the controller, a call at the effective index
  0 (an index not above \<open>xinput_min_index\<close>) returns \<open>ERROR_SUCCESS\<close> with the zero
  state.
\<close>

theorem inconsistent_frame_disconnects:
  assumes "connected (controller g)"
    and "buffer ! 0 = REQUEST_CODE_GET_GAMEPAD_STATE"
    and "buffer ! 1 \<noteq> 1 \<or> read_int buffer 2 \<noteq> id_c (controller g)"
  shows "controller_read_thread_frame buffer g
           = g\<lparr>controller := (controller g)\<lparr>connected := False, state := zero_state\<rparr>\<rparr>
     \<and> dwPacketNumber zero_state = 0 \<and> Gamepad zero_state = zero_gamepad
     \<and> (\<forall>index st. index < XUSER_MAX_COUNT \<longrightarrow>
           fst (XInputGetState index (Some st) (controller_read_thread_frame buffer g))
             = ERROR_DEVICE_NOT_CONNECTED
         \<and> fst (XInputGetStateEx index (Some st) (controller_read_thread_frame buffer g))
             = ERROR_DEVICE_NOT_CONNECTED)
     \<and> (\<forall>r index st.
           r ! 0 = REQUEST_CODE_GET_GAMEPAD \<and> 0 <s read_int r 1
           \<and> index < XUSER_MAX_COUNT \<and> index \<le> scast (xinput_min_index g) \<longrightarrow>
           fst (XInputGetState index (Some st)
                 (controller_read_thread_frame r (controller_read_thread_frame buffer g)))
             = ERROR_SUCCESS
         \<and> fst (snd (XInputGetState index (Some st)
                 (controller_read_thread_frame r (controller_read_thread_frame buffer g))))
             = Some zero_state)"
proof -
  define g1 where "g1 = controller_read_thread_frame buffer g"
  from assms(3) have n: "\<not> frame_accepted buffer (controller g)"
    by (auto simp: frame_accepted_def)
  have g1: "g1 = g\<lparr>controller := (controller g)\<lparr>connected := False, state := zero_state\<rparr>\<rparr>"
    unfolding g1_def
    by (simp add: controller_read_thread_frame_state [OF assms(2) assms(1)]
        controller_update_state_rejected [OF n])
  have d: "\<not> connected (controller g1)"
    by (simp add: g1)
  have m: "xinput_min_index g1 = xinput_min_index g"
    by (simp add: g1)
  have a: "fst (XInputGetState index (Some st) g1) = ERROR_DEVICE_NOT_CONNECTED
      \<and> fst (XInputGetStateEx index (Some st) g1) = ERROR_DEVICE_NOT_CONNECTED"
    if "index < XUSER_MAX_COUNT" for index st
    using xinput_get_state_disconnected(1) [OF that d, of st]
    by (simp add: XInputGetState_not_success XInputGetStateEx_def)
  have b: "fst (XInputGetState index (Some st) (controller_read_thread_frame r g1)) = ERROR_SUCCESS
      \<and> fst (snd (XInputGetState index (Some st) (controller_read_thread_frame r g1)))
          = Some zero_state"
    if r: "r ! 0 = REQUEST_CODE_GET_GAMEPAD" "0 <s read_int r 1"
      and i: "index < XUSER_MAX_COUNT" "index \<le> scast (xinput_min_index g)"
    for r index st
  proof -
    define g2 where "g2 = controller_read_thread_frame r g1"
    have g2: "g2 = g1\<lparr>controller := controller_init ((controller g1)\<lparr>id_c := read_int r 1\<rparr>)\<rparr>"
      unfolding g2_def using r d by (rule controller_read_thread_frame_announce)
    have c2: "connected (controller g2)" "state (controller g2) = zero_state"
      "xinput_min_index g2 = xinput_min_index g"
      by (simp_all add: g2 m controller_init_def controller_check_caps_def)
    from i(2) have "index \<le> scast (xinput_min_index g2)"
      by (simp add: c2)
    from xinput_get_state_effective [OF i(1) this, of st]
    have "xinput_get_state index (Some st) g2
        = (ERROR_SUCCESS, Some zero_state, (start_read_thread g2)\<lparr>xinput_min_index := ucast index\<rparr>)"
      by (simp add: c2)
    then show ?thesis
      unfolding g2_def [symmetric]
      by (simp add: XInputGetState_def zero_state_strip_guide)
  qed
  show ?thesis
    unfolding g1_def [symmetric]
    using g1 a b by (simp add: zero_state_def)
qed

theorem inconsistent_frame_disconnects_witness:
  "controller_read_thread_frame frame_id_mismatch just_connected
     = just_connected\<lparr>controller := (controller just_connected)\<lparr>connected := False, state := zero_state\<rparr>\<rparr>
   \<and> fst (XInputGetState 0 (Some zero_state) (controller_read_thread_frame frame_id_mismatch just_connected))
       = ERROR_DEVICE_NOT_CONNECTED
   \<and> fst (XInputGetState 0 (Some zero_state)
        (controller_read_thread_frame frame_discovery
           (controller_read_thread_frame frame_id_mismatch just_connected)))
       = ERROR_SUCCESS
   \<and> fst (snd (XInputGetState 0 (Some zero_state)
        (controller_read_thread_frame frame_discovery
           (controller_read_thread_frame frame_id_mismatch just_connected))))
       = Some zero_state"
proof -
  have 1: "connected (controller just_connected)"
    by (simp add: just_connected_eq)
  have 2: "frame_id_mismatch ! 0 = REQUEST_CODE_GET_GAMEPAD_STATE"
    by (simp add: frame_id_mismatch_def REQUEST_CODE_GET_GAMEPAD_STATE_def)
  have 3: "frame_id_mismatch ! 1 \<noteq> 1 \<or> read_int frame_id_mismatch 2 \<noteq> id_c (controller just_connected)"
    by (simp add: frame_id_mismatch_def read_int_def just_connected_eq)
  have 4: "frame_discovery ! 0 = REQUEST_CODE_GET_GAMEPAD \<and> 0 <s read_int frame_discovery 1
      \<and> (0 :: DWORD) < XUSER_MAX_COUNT \<and> (0 :: DWORD) \<le> scast (xinput_min_index just_connected)"
    by (simp add: frame_discovery_def read_int_def REQUEST_CODE_GET_GAMEPAD_def
        XUSER_MAX_COUNT_def word_sless_alt)
  note t = inconsistent_frame_disconnects [OF 1 2 3]
  from t have a: "controller_read_thread_frame frame_id_mismatch just_connected
     = just_connected\<lparr>controller := (controller just_connected)\<lparr>connected := False, state := zero_state\<rparr>\<rparr>"
    by (rule conjunct1)
  from t have b: "fst (XInputGetState 0 (Some zero_state)
      (controller_read_thread_frame frame_id_mismatch just_connected)) = ERROR_DEVICE_NOT_CONNECTED"
    using 4 by blast
  from t have c: "fst (XInputGetState 0 (Some zero_state)
        (controller_read_thread_frame frame_discovery
           (controller_read_thread_frame frame_id_mismatch just_connected)))
       = ERROR_SUCCESS
   \<and> fst (snd (XInputGetState 0 (Some zero_state)
        (controller_read_thread_frame frame_discovery
           (controller_read_thread_frame frame_id_mismatch just_connected))))
       = Some zero_state"
    using 4 by blast
  from a b c show ?thesis
    by (simp only: simp_thms)
qed

section \<open>Index remapping\<close>

lemma word32_le_1: "\<not> (2 :: 32 word) \<le> 1" "\<not> (3 :: 32 word) \<le> 1"
  by (simp_all add: word_le_nat_alt)

lemma xinput_min_index_get_state:
  assumes "xinput_min_index g \<le> 3"
  shows "xinput_min_index (snd (snd (xinput_get_state i st g))) \<le> 3
    \<and> ucast (xinput_min_index (snd (snd (xinput_get_state i st g))))
       = (if st \<noteq> None \<and> i < XUSER_MAX_COUNT then min i (ucast (xinput_min_index g))
          else (ucast (xinput_min_index g) :: 32 word))"
proof (cases "st \<noteq> None \<and> i < XUSER_MAX_COUNT")
  case True
  then obtain s where s: "st = Some s" and i: "i < XUSER_MAX_COUNT"
    by auto
  from i have "i = 0 \<or> i = 1 \<or> i = 2 \<or> i = 3"
    by (simp add: XUSER_MAX_COUNT_def idx_cases)
  moreover from assms have "xinput_min_index g = 0 \<or> xinput_min_index g = 1
      \<or> xinput_min_index g = 2 \<or> xinput_min_index g = 3"
    by (rule min_index_cases)
  ultimately show ?thesis
    unfolding s xinput_get_state_in_range [OF i assms]
    by (elim disjE) (simp_all add: start_read_thread_simps XUSER_MAX_COUNT_def word32_le_1)
next
  case False
  then show ?thesis
    using assms
    by (auto simp: xinput_get_state_def start_read_thread_simps not_less)
qed

lemma snd_XInputGetState: "snd (snd (XInputGetState i st g)) = snd (snd (xinput_get_state i st g))"
  by (cases "xinput_get_state i st g") (simp add: XInputGetState_def)

lemma xinput_min_index_step:
  assumes "e \<noteq> Destroy" and "xinput_min_index g \<le> 3"
  shows "xinput_min_index (step e g) \<le> 3
    \<and> (ucast (xinput_min_index (step e g)) :: 32 word)
        = fold min (queried [e]) (ucast (xinput_min_index g))"
proof (cases e)
  case (Frame b)
  with assms show ?thesis
    by (simp add: controller_read_thread_frame_def Let_def)
next
  case (Enable b)
  with assms show ?thesis
    by (simp add: XInputEnable_def Let_def start_read_thread_simps)
next
  case (SetState i v)
  with assms show ?thesis
    by (simp add: XInputSetState_def Let_def start_read_thread_simps)
next
  case (GetState i st)
  with xinput_min_index_get_state [OF assms(2), of i st] show ?thesis
    by (cases st) (simp_all add: snd_XInputGetState)
next
  case (GetStateEx i st)
  with xinput_min_index_get_state [OF assms(2), of i st] show ?thesis
    by (cases st) (simp_all add: XInputGetStateEx_def)
next
  case (GetKeystroke i r k)
  with assms show ?thesis
    by (simp add: XInputGetKeystroke_def split: prod.splits)
next
  case (GetCapabilitiesEx u i f c)
  with assms show ?thesis
    by (simp add: XInputGetCapabilitiesEx_def Let_def start_read_thread_simps)
next
  case Destroy
  with assms show ?thesis by simp
qed

lemma queried_Cons: "queried (e # evs) = queried [e] @ queried evs"
proof (cases e)
  case (GetState i st)
  then show ?thesis by (cases st) simp_all
next
  case (GetStateEx i st)
  then show ?thesis by (cases st) simp_all
qed simp_all

lemma xinput_min_index_run:
  assumes "Destroy \<notin> set evs" and "xinput_min_index g \<le> 3"
  shows "xinput_min_index (run evs g) \<le> 3
    \<and> (ucast (xinput_min_index (run evs g)) :: 32 word)
        = fold min (queried evs) (ucast (xinput_min_index g))"
  using assms
proof (induction evs arbitrary: g)
  case Nil
  then show ?case by (simp add: run_def)
next
  case (Cons e evs)
  from Cons.prems have e: "e \<noteq> Destroy" and d: "Destroy \<notin> set evs"
    by auto
  note s = xinput_min_index_step [OF e Cons.prems(2)]
  from s have "xinput_min_index (step e g) \<le> 3" ..
  from Cons.IH [OF d this] s show ?case
    by (simp add: run_def queried_Cons [of e evs])
qed


lemma run_just_connected: "run [Enable True, Frame frame_discovery] initial_globals = just_connected"
  by (simp add: run_def XInputEnable_def just_connected_def start_read_thread_def
      initial_globals_def initial_controller_def)

lemma fold_min_Min: "fold min xs (a :: 32 word) = Min (set (a # xs))"
  by (simp only: Min.set_eq_fold)

lemma fst_XInputGetState:
  "fst (XInputGetState i st g) = fst (xinput_get_state i st g)"
  by (cases "xinput_get_state i st g") (simp add: XInputGetState_def)

text \<open>
  Claim C2, amended. As long as the runtime lives (no \<open>controller_destroy\<close> in the run),
  \<open>xinput_min_index\<close> is the smallest index that the \<open>GetState\<close> calls have queried
  so far, and 3 before any query. A further \<open>XInputGetState\<close> or \<open>XInputGetStateEx\<close>
  at an index in 0..3 is served as index 0 when the index is not above that minimum (it
  returns \<open>ERROR_SUCCESS\<close> if the controller is connected) and lowers
  \<open>xinput_min_index\<close> to the index; at an index above the minimum it returns
  \<open>ERROR_DEVICE_NOT_CONNECTED\<close>.
\<close>

theorem min_index_remap:
  assumes "Destroy \<notin> set evs" and "index < XUSER_MAX_COUNT"
  shows "ucast (xinput_min_index (run evs initial_globals)) = Min (set (3 # queried evs))
    \<and> fst (XInputGetState index (Some st) (run evs initial_globals))
        = (if index \<le> Min (set (3 # queried evs)) \<and> connected (controller (run evs initial_globals))
           then ERROR_SUCCESS else ERROR_DEVICE_NOT_CONNECTED)
    \<and> fst (XInputGetStateEx index (Some st) (run evs initial_globals))
        = (if index \<le> Min (set (3 # queried evs)) \<and> connected (controller (run evs initial_globals))
           then ERROR_SUCCESS else ERROR_DEVICE_NOT_CONNECTED)
    \<and> ucast (xinput_min_index (snd (snd (XInputGetState index (Some st) (run evs initial_globals)))))
        = min index (Min (set (3 # queried evs)))"
proof -
  define g where "g = run evs initial_globals"
  have i: "xinput_min_index initial_globals \<le> 3"
    by (simp add: initial_globals_def)
  from xinput_min_index_run [OF assms(1) i]
  have m: "xinput_min_index g \<le> 3"
    and u: "(ucast (xinput_min_index g) :: 32 word) = Min (set (3 # queried evs))"
    by (simp_all add: g_def initial_globals_def fold_min_Min)
  have x: "fst (xinput_get_state index (Some st) g)
      = (if index \<le> Min (set (3 # queried evs)) \<and> connected (controller g)
         then ERROR_SUCCESS else ERROR_DEVICE_NOT_CONNECTED)"
    unfolding xinput_get_state_in_range [OF assms(2) m] u by simp
  from xinput_min_index_get_state [OF m, of index "Some st"] assms(2)
  have n: "ucast (xinput_min_index (snd (snd (xinput_get_state index (Some st) g))))
      = min index (Min (set (3 # queried evs)))"
    by (simp add: u)
  show ?thesis
    unfolding g_def [symmetric]
    by (simp only: u x n fst_XInputGetState snd_XInputGetState XInputGetStateEx_def simp_thms)
qed

theorem min_index_remap_witness:
  "ucast (xinput_min_index (run [Enable True, Frame frame_discovery,
       GetState 2 (Some zero_state), GetState 1 (Some zero_state)] initial_globals)) = (1 :: DWORD)
   \<and> fst (XInputGetState 2 (Some zero_state) (run [Enable True, Frame frame_discovery,
       GetState 2 (Some zero_state), GetState 1 (Some zero_state)] initial_globals))
      = ERROR_DEVICE_NOT_CONNECTED"
proof -
  have d: "Destroy \<notin> set [Enable True, Frame frame_discovery,
       GetState 2 (Some zero_state), GetState 1 (Some zero_state)]"
    by simp
  have i: "(2 :: DWORD) < XUSER_MAX_COUNT"
    by (simp add: XUSER_MAX_COUNT_def)
  have q: "Min (set (3 # queried [Enable True, Frame frame_discovery,
       GetState 2 (Some zero_state), GetState 1 (Some zero_state)])) = (1 :: DWORD)"
    by (simp add: XUSER_MAX_COUNT_def)
  from min_index_remap [OF d i, of zero_state] show ?thesis
    unfolding q by (simp add: word32_le_1)
qed

text \<open>
  Claim C2 as stated fails: with the controller connected, the first query at index 2 is
  served (\<open>xinput_min_index\<close> becomes 2), and the next query at the other index 1 is
  served as well instead of reporting \<open>ERROR_DEVICE_NOT_CONNECTED\<close>.
\<close>

theorem lower_index_takes_over:
  "run [Enable True, Frame frame_discovery] initial_globals = just_connected
   \<and> xinput_min_index just_connected = 3
   \<and> fst (XInputGetState 2 (Some zero_state) just_connected) = ERROR_SUCCESS
   \<and> xinput_min_index (snd (snd (XInputGetState 2 (Some zero_state) just_connected))) = 2
   \<and> fst (XInputGetState 1 (Some zero_state)
        (snd (snd (XInputGetState 2 (Some zero_state) just_connected)))) = ERROR_SUCCESS
   \<and> fst (XInputGetState 1 (Some zero_state)
        (snd (snd (XInputGetState 2 (Some zero_state) just_connected)))) \<noteq> ERROR_DEVICE_NOT_CONNECTED"
proof -
  have i: "(2 :: DWORD) < XUSER_MAX_COUNT" "(1 :: DWORD) < XUSER_MAX_COUNT"
    by (simp_all add: XUSER_MAX_COUNT_def)
  have m: "xinput_min_index just_connected \<le> 3" "xinput_min_index just_connected = 3"
    "connected (controller just_connected)"
    by (simp_all add: just_connected_eq)
  define g1 where "g1 = snd (snd (XInputGetState 2 (Some zero_state) just_connected))"
  have a: "xinput_get_state 2 (Some zero_state) just_connected
      = (ERROR_SUCCESS, Some (state (controller just_connected)),
         (start_read_thread just_connected)\<lparr>xinput_min_index := 2\<rparr>)"
    unfolding xinput_get_state_in_range [OF i(1) m(1)] by (simp add: m)
  have g1: "g1 = (start_read_thread just_connected)\<lparr>xinput_min_index := 2\<rparr>"
    by (simp add: g1_def snd_XInputGetState a)
  have m1: "xinput_min_index g1 \<le> 3" "xinput_min_index g1 = 2" "connected (controller g1)"
    by (simp_all add: g1 start_read_thread_simps m)
  have b: "fst (xinput_get_state 1 (Some zero_state) g1) = ERROR_SUCCESS"
    unfolding xinput_get_state_in_range [OF i(2) m1(1)] by (simp add: m1 word_le_nat_alt)
  show ?thesis
    unfolding g1_def [symmetric]
    by (simp add: run_just_connected m fst_XInputGetState a b m1)
qed

text \<open>
  Claim C9. \<open>XInputSetState\<close> and \<open>XInputGetKeystroke\<close> pass the index as it is to
  \<open>controller_is_connected\<close>: at index 1, 2 or 3 they return
  \<open>ERROR_DEVICE_NOT_CONNECTED\<close> in every state, also in one where \<open>XInputGetState\<close>
  at that index returns \<open>ERROR_SUCCESS\<close>.
\<close>

theorem set_state_and_keystroke_not_remapped:
  assumes "index \<in> {1, 2, 3}"
  shows "fst (XInputSetState index vibration g) = ERROR_DEVICE_NOT_CONNECTED
    \<and> fst (XInputGetKeystroke index reserved keystroke g) = ERROR_DEVICE_NOT_CONNECTED"
proof -
  from assms have "index = 1 \<or> index = 2 \<or> index = 3"
    by simp
  then show ?thesis
    by (elim disjE)
       (simp_all add: XInputSetState_def XInputGetKeystroke_def Let_def XUSER_MAX_COUNT_def
          XUSER_INDEX_ANY_def controller_is_connected_def word32_4_le)
qed

theorem set_state_and_keystroke_not_remapped_witness:
  "fst (XInputGetState 2 (Some zero_state) just_connected) = ERROR_SUCCESS
   \<and> fst (XInputGetState 2 (Some zero_state)
        (snd (snd (XInputGetState 2 (Some zero_state) just_connected)))) = ERROR_SUCCESS
   \<and> fst (XInputSetState 2 \<lparr>wLeftMotorSpeed = 0, wRightMotorSpeed = 0\<rparr>
        (snd (snd (XInputGetState 2 (Some zero_state) just_connected)))) = ERROR_DEVICE_NOT_CONNECTED
   \<and> fst (XInputGetKeystroke 2 0
        \<lparr>VirtualKey = 0, Unicode = 0, Flags = 0, UserIndex = 0, HidCode = 0\<rparr>
        (snd (snd (XInputGetState 2 (Some zero_state) just_connected)))) = ERROR_DEVICE_NOT_CONNECTED"
proof -
  have i: "(2 :: DWORD) < XUSER_MAX_COUNT"
    by (simp add: XUSER_MAX_COUNT_def)
  have m: "xinput_min_index just_connected \<le> 3" "xinput_min_index just_connected = 3"
    "connected (controller just_connected)"
    by (simp_all add: just_connected_eq)
  define g1 where "g1 = snd (snd (XInputGetState 2 (Some zero_state) just_connected))"
  have a: "xinput_get_state 2 (Some zero_state) just_connected
      = (ERROR_SUCCESS, Some (state (controller just_connected)),
         (start_read_thread just_connected)\<lparr>xinput_min_index := 2\<rparr>)"
    unfolding xinput_get_state_in_range [OF i m(1)] by (simp add: m)
  have g1: "g1 = (start_read_thread just_connected)\<lparr>xinput_min_index := 2\<rparr>"
    by (simp add: g1_def snd_XInputGetState a)
  have m1: "xinput_min_index g1 \<le> 3" "xinput_min_index g1 = 2" "connected (controller g1)"
    by (simp_all add: g1 start_read_thread_simps m)
  have b: "fst (xinput_get_state 2 (Some zero_state) g1) = ERROR_SUCCESS"
    unfolding xinput_get_state_in_range [OF i m1(1)] by (simp add: m1)
  have s: "(2 :: DWORD) \<in> {1, 2, 3}"
    by simp
  from set_state_and_keystroke_not_remapped [OF s] show ?thesis
    unfolding g1_def [symmetric]
    by (simp add: fst_XInputGetState a b)
qed

section \<open>Capabilities of a connected controller\<close>

lemma check_buttons_only_last_keystroke:
  "check_buttons tbl c = Some (k, c') \<Longrightarrow> c' = c\<lparr>last_keystroke := last_keystroke c'\<rparr>"
  by (induction tbl) (auto simp: Let_def split: if_splits)

lemma check_for_keystroke_only_last_keystroke:
  "snd (snd (check_for_keystroke k c))
     = c\<lparr>last_keystroke := last_keystroke (snd (snd (check_for_keystroke k c)))\<rparr>"
proof (cases "check_buttons buttons c")
  case None
  then show ?thesis
    by (simp add: check_for_keystroke_def Let_def split: prod.splits)
next
  case (Some p)
  then obtain k' c' where "check_buttons buttons c = Some (k', c')"
    by (cases p) simp
  with check_buttons_only_last_keystroke [OF this] show ?thesis
    by (simp add: check_for_keystroke_def Let_def)
qed

lemma XInputGetKeystroke_only_last_keystroke:
  "snd (snd (XInputGetKeystroke i r k g))
     = g\<lparr>controller := (controller g)\<lparr>last_keystroke :=
          last_keystroke (controller (snd (snd (XInputGetKeystroke i r k g))))\<rparr>\<rparr>"
proof -
  obtain ret k' c' where c: "check_for_keystroke k (controller g) = (ret, k', c')"
    by (cases "check_for_keystroke k (controller g)") auto
  from check_for_keystroke_only_last_keystroke [of k "controller g"]
  have "c' = (controller g)\<lparr>last_keystroke := last_keystroke c'\<rparr>"
    by (simp add: c)
  then show ?thesis
    by (simp add: XInputGetKeystroke_def c)
qed

lemma caps_controller_init:
  "caps (controller_init c) = caps (controller_check_caps initial_controller)"
  by (simp add: controller_init_def controller_check_caps_def)

lemma controller_update_state_caps:
  "caps (controller_update_state b c) = caps c"
  "connected (controller_update_state b c) \<Longrightarrow> connected c"
  by (auto simp: controller_update_state_def Let_def split: if_splits)

lemma step_caps:
  "caps (controller (step e g)) = caps (controller g)
   \<or> caps (controller (step e g)) = caps (controller_check_caps initial_controller)"
proof (cases e)
  case (Frame b)
  then show ?thesis
    by (simp add: controller_read_thread_frame_def Let_def caps_controller_init
        controller_update_state_caps)
next
  case (Enable b)
  then show ?thesis
    by (simp add: XInputEnable_def Let_def start_read_thread_simps)
next
  case (SetState i v)
  then show ?thesis
    by (simp add: XInputSetState_def Let_def start_read_thread_simps)
next
  case (GetState i st)
  then show ?thesis
    by (auto simp: snd_XInputGetState xinput_get_state_def Let_def start_read_thread_simps)
next
  case (GetStateEx i st)
  then show ?thesis
    by (auto simp: XInputGetStateEx_def xinput_get_state_def Let_def start_read_thread_simps)
next
  case (GetKeystroke i r k)
  have "caps (controller (snd (snd (XInputGetKeystroke i r k g)))) = caps (controller g)"
    by (subst XInputGetKeystroke_only_last_keystroke) simp
  with GetKeystroke show ?thesis
    by simp
next
  case (GetCapabilitiesEx u i f c)
  then show ?thesis
    by (simp add: XInputGetCapabilitiesEx_def Let_def start_read_thread_simps)
next
  case Destroy
  then show ?thesis
    by (simp add: controller_destroy_def)
qed

lemma step_connected:
  assumes "connected (controller (step e g))"
  shows "connected (controller g) \<or> caps_ready (step e g)"
proof (cases e)
  case (Frame b)
  with assms show ?thesis
    by (auto simp: controller_read_thread_frame_def Let_def caps_controller_init caps_ready_def
        dest: controller_update_state_caps(2) split: if_splits)
next
  case (Enable b)
  with assms show ?thesis
    by (simp add: XInputEnable_def Let_def start_read_thread_simps split: if_splits)
next
  case (SetState i v)
  with assms show ?thesis
    by (simp add: XInputSetState_def Let_def start_read_thread_simps split: if_splits)
next
  case (GetState i st)
  with assms show ?thesis
    by (auto simp: snd_XInputGetState xinput_get_state_def Let_def start_read_thread_simps
        split: if_splits)
next
  case (GetStateEx i st)
  with assms show ?thesis
    by (auto simp: XInputGetStateEx_def xinput_get_state_def Let_def start_read_thread_simps
        split: if_splits)
next
  case (GetKeystroke i r k)
  have "connected (controller (snd (snd (XInputGetKeystroke i r k g)))) = connected (controller g)"
    by (subst XInputGetKeystroke_only_last_keystroke) simp
  with GetKeystroke assms show ?thesis
    by simp
next
  case (GetCapabilitiesEx u i f c)
  with assms show ?thesis
    by (simp add: XInputGetCapabilitiesEx_def Let_def start_read_thread_simps split: if_splits)
next
  case Destroy
  with assms show ?thesis
    by (simp add: controller_destroy_def)
qed

lemma run_snoc: "run (evs @ [e]) g = step e (run evs g)"
  by (simp add: run_def)

lemma caps_ready_step: "caps_ready g \<Longrightarrow> caps_ready (step e g)"
  using step_caps [of e g] by (auto simp: caps_ready_def)

lemma caps_ready_run: "caps_ready g \<Longrightarrow> caps_ready (run evs g)"
proof (induction evs arbitrary: g)
  case Nil
  then show ?case by (simp add: run_def)
next
  case (Cons e evs)
  from Cons.prems have "caps_ready (step e g)"
    by (rule caps_ready_step)
  then have "caps_ready (run evs (step e g))"
    by (rule Cons.IH)
  then show ?case by (simp add: run_def)
qed

lemma connected_caps_ready:
  "connected (controller (run evs initial_globals)) \<Longrightarrow> caps_ready (run evs initial_globals)"
proof (induction evs rule: rev_induct)
  case Nil
  then show ?case
    by (simp add: run_def initial_globals_def initial_controller_def)
next
  case (snoc e evs)
  from snoc.prems have "connected (controller (step e (run evs initial_globals)))"
    by (simp add: run_snoc)
  then have "connected (controller (run evs initial_globals))
      \<or> caps_ready (step e (run evs initial_globals))"
    by (rule step_connected)
  then show ?case
  proof
    assume "connected (controller (run evs initial_globals))"
    then have "caps_ready (run evs initial_globals)"
      by (rule snoc.IH)
    then show ?thesis
      unfolding run_snoc by (rule caps_ready_step)
  next
    assume "caps_ready (step e (run evs initial_globals))"
    then show ?thesis
      by (simp add: run_snoc)
  qed
qed

lemma caps_ready_SubType: "caps_ready g \<Longrightarrow> SubType (caps (controller g)) = XINPUT_DEVSUBTYPE_GAMEPAD"
  by (simp add: caps_ready_def controller_check_caps_def)

text \<open>
  Claim C10. In every state that a run of the library reaches, a connected controller has
  the gamepad subtype in its capabilities: \<open>connected\<close> is only set by
  \<open>controller_init\<close>, after \<open>controller_check_caps\<close>, and nothing else writes the
  capabilities. The subtype also stays in place whatever happens later, so a connection
  check and a later flag test cannot disagree. So the branch of \<open>XInputGetCapabilitiesEx\<close> behind the
  \<open>XINPUT_FLAG_GAMEPAD\<close> test is never taken: whatever the flags, the call returns
  \<open>ERROR_BAD_ARGUMENTS\<close> for an index of 4 or more, \<open>ERROR_SUCCESS\<close> with the stored
  capabilities, vendor id 0x045E and product id 0x02A1 for index 0 when connected, and
  \<open>ERROR_DEVICE_NOT_CONNECTED\<close> otherwise, from the connection check alone.
\<close>

theorem capabilities_flag_branch_unreachable:
  "(connected (controller (run evs initial_globals)) \<longrightarrow>
      SubType (caps (controller (run evs initial_globals))) = XINPUT_DEVSUBTYPE_GAMEPAD
      \<and> SubType (caps (controller (run (evs @ later) initial_globals)))
          = XINPUT_DEVSUBTYPE_GAMEPAD)
   \<and> XInputGetCapabilitiesEx unk index flags caps_ex (run evs initial_globals)
       = (if index \<ge> XUSER_MAX_COUNT then
            (ERROR_BAD_ARGUMENTS, caps_ex, start_read_thread (run evs initial_globals))
          else if index = 0 \<and> connected (controller (run evs initial_globals)) then
            (ERROR_SUCCESS,
             caps_ex\<lparr>Capabilities := caps (controller (run evs initial_globals)),
                      VendorId := 0x045E, ProductId := 0x02A1\<rparr>,
             start_read_thread (run evs initial_globals))
          else
            (ERROR_DEVICE_NOT_CONNECTED, caps_ex, start_read_thread (run evs initial_globals)))"
proof -
  define g where "g = run evs initial_globals"
  have r: "caps_ready g" if "connected (controller g)"
    using that unfolding g_def by (rule connected_caps_ready)
  have s: "SubType (caps (controller g)) = XINPUT_DEVSUBTYPE_GAMEPAD" if "connected (controller g)"
    using that by (intro caps_ready_SubType r)
  have l: "SubType (caps (controller (run later g))) = XINPUT_DEVSUBTYPE_GAMEPAD"
    if "connected (controller g)"
    using that by (intro caps_ready_SubType caps_ready_run r)
  have a: "run (evs @ later) initial_globals = run later g"
    by (simp add: g_def run_def)
  show ?thesis
    unfolding a g_def [symmetric]
    using s l
    by (auto simp: XInputGetCapabilitiesEx_def Let_def controller_is_connected_def
        start_read_thread_simps)
qed

theorem capabilities_flag_branch_unreachable_witness:
  "connected (controller (run [Enable True, Frame frame_discovery] initial_globals))
   \<and> SubType (caps (controller (run [Enable True, Frame frame_discovery] initial_globals)))
       = XINPUT_DEVSUBTYPE_GAMEPAD
   \<and> fst (XInputGetCapabilitiesEx 1 0 XINPUT_FLAG_GAMEPAD
        \<lparr>Capabilities = zero_caps, VendorId = 0, ProductId = 0, VersionNumber = 0,
         unk1 = 0, unk2 = 0\<rparr>
        (run [Enable True, Frame frame_discovery] initial_globals)) = ERROR_SUCCESS"
proof -
  have c: "connected (controller (run [Enable True, Frame frame_discovery] initial_globals))"
    by (simp add: run_just_connected just_connected_eq)
  have i: "\<not> (0 :: DWORD) \<ge> XUSER_MAX_COUNT"
    by (simp add: XUSER_MAX_COUNT_def)
  from capabilities_flag_branch_unreachable [where evs = "[Enable True, Frame frame_discovery]"
      and later = "[]" and unk = 1 and index = 0 and flags = XINPUT_FLAG_GAMEPAD
      and caps_ex = "\<lparr>Capabilities = zero_caps, VendorId = 0, ProductId = 0,
        VersionNumber = 0, unk1 = 0, unk2 = 0\<rparr>"]
  show ?thesis
    using c i by simp
qed

section \<open>Button keystrokes\<close>












lemma check_buttons_quiet:
  "\<forall>p \<in> set tbl. wButtons (Gamepad (state c)) AND fst p = wButtons (last_keystroke c) AND fst p
   \<Longrightarrow> check_buttons tbl c = None"
  by (induction tbl) (auto simp: Let_def)




section \<open>Stick keystrokes\<close>

lemma joystick_state_cases:
  "joystick_state v = 0 \<or> joystick_state v = 1 \<or> joystick_state v = 2"
  by (simp add: joystick_state_def JS_STATE_defs)

lemma joystick_state_0: "joystick_state 0 = 0"
  by (simp add: joystick_state_def JS_STATE_defs word_sless_alt)

lemma stick_vk_value:
  assumes "base_vk = VK_PAD_LTHUMB_UP \<or> base_vk = VK_PAD_RTHUMB_UP"
    and "x = 0 \<or> x = 1 \<or> x = 2" and "y = 0 \<or> y = 1 \<or> y = 2" and "x \<noteq> 0 \<or> y \<noteq> 0"
  shows "uint base_vk + uint (js_vk_offs x y)
      = uint base_vk + (if y = 0 then (if x = 1 then 3 else 2)
                        else if y = 2 then (if x = 0 then 0 else if x = 1 then 4 else 5)
                        else (if x = 0 then 1 else if x = 1 then 7 else 6))"
  using assms(2,3) by (auto simp: js_vk_offs_def JS_STATE_defs)

lemma stick_vk_nonzero:
  assumes "base_vk = VK_PAD_LTHUMB_UP \<or> base_vk = VK_PAD_RTHUMB_UP"
    and "x = 0 \<or> x = 1 \<or> x = 2" and "y = 0 \<or> y = 1 \<or> y = 2" and "x \<noteq> 0 \<or> y \<noteq> 0"
  shows "uint base_vk + uint (js_vk_offs x y) \<noteq> 0"
  unfolding stick_vk_value [OF assms]
  using assms(1) by (auto simp: VK_PAD_defs)

lemma stick_vk_distinct:
  assumes "base_vk = VK_PAD_LTHUMB_UP \<or> base_vk = VK_PAD_RTHUMB_UP"
    and "x = 0 \<or> x = 1 \<or> x = 2" and "y = 0 \<or> y = 1 \<or> y = 2" and "x \<noteq> 0 \<or> y \<noteq> 0"
    and "x' = 0 \<or> x' = 1 \<or> x' = 2" and "y' = 0 \<or> y' = 1 \<or> y' = 2" and "x' \<noteq> 0 \<or> y' \<noteq> 0"
    and "x \<noteq> x' \<or> y \<noteq> y'"
  shows "uint base_vk + uint (js_vk_offs x y) \<noteq> uint base_vk + uint (js_vk_offs x' y')"
  unfolding stick_vk_value [OF assms(1-4)] stick_vk_value [OF assms(1) assms(5-7)]
  using assms(2-8) by auto

lemma check_joystick_keystroke_up:
  assumes "base_vk = VK_PAD_LTHUMB_UP \<or> base_vk = VK_PAD_RTHUMB_UP"
    and "\<not> stick_centered last_x last_y" and "\<not> stick_centered cur_x cur_y"
    and "\<not> same_direction last_x last_y cur_x cur_y"
  shows "check_joystick_keystroke k cur_x cur_y last_x last_y base_vk
     = (ERROR_SUCCESS, key_event (stick_vk base_vk last_x last_y) XINPUT_KEYSTROKE_KEYUP, 0, 0)"
proof -
  note c = joystick_state_cases [of cur_x] joystick_state_cases [of cur_y]
    joystick_state_cases [of last_x] joystick_state_cases [of last_y]
  from assms(2) have l: "joystick_state last_x \<noteq> 0 \<or> joystick_state last_y \<noteq> 0"
    by (auto simp: stick_centered_def JS_STATE_defs)
  from assms(3) have u: "joystick_state cur_x \<noteq> 0 \<or> joystick_state cur_y \<noteq> 0"
    by (auto simp: stick_centered_def JS_STATE_defs)
  from assms(4) have d: "joystick_state cur_x \<noteq> joystick_state last_x
      \<or> joystick_state cur_y \<noteq> joystick_state last_y"
    by (auto simp: same_direction_def)
  note n = stick_vk_distinct [OF assms(1) c(1,2) u c(3,4) l d]
  have z: "uint base_vk + uint (js_vk_offs (joystick_state last_x) (joystick_state last_y)) \<noteq> 0"
    by (rule stick_vk_nonzero [OF assms(1) c(3,4) l])
  show ?thesis
    unfolding check_joystick_keystroke_def Let_def key_event_def stick_vk_def
    using l u n z by (simp add: if_P)
qed

lemma check_joystick_keystroke_down:
  assumes "base_vk = VK_PAD_LTHUMB_UP \<or> base_vk = VK_PAD_RTHUMB_UP"
    and "\<not> stick_centered cur_x cur_y"
  shows "check_joystick_keystroke k cur_x cur_y 0 0 base_vk
     = (ERROR_SUCCESS, key_event (stick_vk base_vk cur_x cur_y) XINPUT_KEYSTROKE_KEYDOWN,
        cur_x, cur_y)"
proof -
  note c = joystick_state_cases [of cur_x] joystick_state_cases [of cur_y]
  from assms(2) have u: "joystick_state cur_x \<noteq> 0 \<or> joystick_state cur_y \<noteq> 0"
    by (auto simp: stick_centered_def JS_STATE_defs)
  have z: "uint base_vk + uint (js_vk_offs (joystick_state cur_x) (joystick_state cur_y)) \<noteq> 0"
    by (rule stick_vk_nonzero [OF assms(1) c u])
  show ?thesis
    unfolding check_joystick_keystroke_def Let_def key_event_def stick_vk_def joystick_state_0
    using u z by (simp add: if_P)
qed

lemma check_joystick_keystroke_empty:
  assumes "same_direction last_x last_y cur_x cur_y"
  shows "check_joystick_keystroke k cur_x cur_y last_x last_y base_vk
     = (ERROR_EMPTY, k, cur_x, cur_y)"
  using assms by (simp add: check_joystick_keystroke_def Let_def same_direction_def)


lemma check_for_keystroke_sticks:
  assumes "keys_quiet c"
  shows "check_for_keystroke k c =
     (case check_joystick_keystroke k (sThumbLX (Gamepad (state c))) (sThumbLY (Gamepad (state c)))
             (sThumbLX (last_keystroke c)) (sThumbLY (last_keystroke c)) VK_PAD_LTHUMB_UP of
        (ret, k1, lx, ly) \<Rightarrow>
          if ret = ERROR_SUCCESS then
            (ret, k1, c\<lparr>last_keystroke := (last_keystroke c)\<lparr>sThumbLX := lx, sThumbLY := ly\<rparr>\<rparr>)
          else
            (case check_joystick_keystroke k1 (sThumbRX (Gamepad (state c)))
                    (sThumbRY (Gamepad (state c))) (sThumbRX (last_keystroke c))
                    (sThumbRY (last_keystroke c)) VK_PAD_RTHUMB_UP of
               (ret2, k2, rx, ry) \<Rightarrow>
                 (ret2, k2, c\<lparr>last_keystroke := (last_keystroke c)
                    \<lparr>sThumbLX := lx, sThumbLY := ly, sThumbRX := rx, sThumbRY := ry\<rparr>\<rparr>)))"
proof -
  from assms have "check_buttons buttons c = None"
    by (intro check_buttons_quiet) (simp add: keys_quiet_def)
  moreover from assms have
    "trigger_is_on (bLeftTrigger (Gamepad (state c))) = trigger_is_on (bLeftTrigger (last_keystroke c))"
    "trigger_is_on (bRightTrigger (Gamepad (state c))) = trigger_is_on (bRightTrigger (last_keystroke c))"
    by (simp_all add: keys_quiet_def)
  ultimately show ?thesis
    by (simp add: check_for_keystroke_def Let_def split: prod.splits)
qed

lemma keys_quiet_thumbs:
  "keys_quiet (c\<lparr>last_keystroke := (last_keystroke c)\<lparr>sThumbLX := lx, sThumbLY := ly\<rparr>\<rparr>)
     = keys_quiet c"
  "keys_quiet (c\<lparr>last_keystroke := (last_keystroke c)
      \<lparr>sThumbLX := lx, sThumbLY := ly, sThumbRX := rx, sThumbRY := ry\<rparr>\<rparr>) = keys_quiet c"
  by (simp_all add: keys_quiet_def)

lemma XInputGetKeystroke_connected:
  assumes "connected (controller g)" and "index = 0 \<or> index = XUSER_INDEX_ANY"
  shows "XInputGetKeystroke index reserved k g =
     (case check_for_keystroke k (controller g) of (ret, k', c') \<Rightarrow> (ret, k', g\<lparr>controller := c'\<rparr>))"
  using assms
  by (auto simp: XInputGetKeystroke_def controller_is_connected_def XUSER_MAX_COUNT_def
      XUSER_INDEX_ANY_def)

lemma left_stick_transition:
  assumes "keys_quiet c"
    and "\<not> stick_centered (sThumbLX (last_keystroke c)) (sThumbLY (last_keystroke c))"
    and "\<not> stick_centered (sThumbLX (Gamepad (state c))) (sThumbLY (Gamepad (state c)))"
    and "\<not> same_direction (sThumbLX (last_keystroke c)) (sThumbLY (last_keystroke c))
           (sThumbLX (Gamepad (state c))) (sThumbLY (Gamepad (state c)))"
  shows "check_for_keystroke k1 c =
      (ERROR_SUCCESS,
       key_event (stick_vk VK_PAD_LTHUMB_UP (sThumbLX (last_keystroke c)) (sThumbLY (last_keystroke c)))
         XINPUT_KEYSTROKE_KEYUP,
       c\<lparr>last_keystroke := (last_keystroke c)\<lparr>sThumbLX := 0, sThumbLY := 0\<rparr>\<rparr>)"
    and "check_for_keystroke k2
        (c\<lparr>last_keystroke := (last_keystroke c)\<lparr>sThumbLX := 0, sThumbLY := 0\<rparr>\<rparr>) =
      (ERROR_SUCCESS,
       key_event (stick_vk VK_PAD_LTHUMB_UP (sThumbLX (Gamepad (state c))) (sThumbLY (Gamepad (state c))))
         XINPUT_KEYSTROKE_KEYDOWN,
       c\<lparr>last_keystroke := (last_keystroke c)
          \<lparr>sThumbLX := sThumbLX (Gamepad (state c)), sThumbLY := sThumbLY (Gamepad (state c))\<rparr>\<rparr>)"
proof -
  show "check_for_keystroke k1 c =
      (ERROR_SUCCESS,
       key_event (stick_vk VK_PAD_LTHUMB_UP (sThumbLX (last_keystroke c)) (sThumbLY (last_keystroke c)))
         XINPUT_KEYSTROKE_KEYUP,
       c\<lparr>last_keystroke := (last_keystroke c)\<lparr>sThumbLX := 0, sThumbLY := 0\<rparr>\<rparr>)"
    unfolding check_for_keystroke_sticks [OF assms(1)]
    by (simp add: check_joystick_keystroke_up [OF _ assms(2,3,4)])
  define c1 where "c1 = c\<lparr>last_keystroke := (last_keystroke c)\<lparr>sThumbLX := 0, sThumbLY := 0\<rparr>\<rparr>"
  have q: "keys_quiet c1"
    using assms(1) by (simp add: c1_def keys_quiet_thumbs)
  show "check_for_keystroke k2
        (c\<lparr>last_keystroke := (last_keystroke c)\<lparr>sThumbLX := 0, sThumbLY := 0\<rparr>\<rparr>) =
      (ERROR_SUCCESS,
       key_event (stick_vk VK_PAD_LTHUMB_UP (sThumbLX (Gamepad (state c))) (sThumbLY (Gamepad (state c))))
         XINPUT_KEYSTROKE_KEYDOWN,
       c\<lparr>last_keystroke := (last_keystroke c)
          \<lparr>sThumbLX := sThumbLX (Gamepad (state c)), sThumbLY := sThumbLY (Gamepad (state c))\<rparr>\<rparr>)"
    unfolding c1_def [symmetric] check_for_keystroke_sticks [OF q]
    by (simp add: c1_def check_joystick_keystroke_down [OF _ assms(3)])
qed

lemma right_stick_transition:
  assumes "keys_quiet c"
    and "same_direction (sThumbLX (last_keystroke c)) (sThumbLY (last_keystroke c))
           (sThumbLX (Gamepad (state c))) (sThumbLY (Gamepad (state c)))"
    and "\<not> stick_centered (sThumbRX (last_keystroke c)) (sThumbRY (last_keystroke c))"
    and "\<not> stick_centered (sThumbRX (Gamepad (state c))) (sThumbRY (Gamepad (state c)))"
    and "\<not> same_direction (sThumbRX (last_keystroke c)) (sThumbRY (last_keystroke c))
           (sThumbRX (Gamepad (state c))) (sThumbRY (Gamepad (state c)))"
  shows "check_for_keystroke k1 c =
      (ERROR_SUCCESS,
       key_event (stick_vk VK_PAD_RTHUMB_UP (sThumbRX (last_keystroke c)) (sThumbRY (last_keystroke c)))
         XINPUT_KEYSTROKE_KEYUP,
       c\<lparr>last_keystroke := (last_keystroke c)
          \<lparr>sThumbLX := sThumbLX (Gamepad (state c)), sThumbLY := sThumbLY (Gamepad (state c)),
           sThumbRX := 0, sThumbRY := 0\<rparr>\<rparr>)"
    and "check_for_keystroke k2
        (c\<lparr>last_keystroke := (last_keystroke c)
          \<lparr>sThumbLX := sThumbLX (Gamepad (state c)), sThumbLY := sThumbLY (Gamepad (state c)),
           sThumbRX := 0, sThumbRY := 0\<rparr>\<rparr>) =
      (ERROR_SUCCESS,
       key_event (stick_vk VK_PAD_RTHUMB_UP (sThumbRX (Gamepad (state c))) (sThumbRY (Gamepad (state c))))
         XINPUT_KEYSTROKE_KEYDOWN,
       c\<lparr>last_keystroke := (last_keystroke c)
          \<lparr>sThumbLX := sThumbLX (Gamepad (state c)), sThumbLY := sThumbLY (Gamepad (state c)),
           sThumbRX := sThumbRX (Gamepad (state c)), sThumbRY := sThumbRY (Gamepad (state c))\<rparr>\<rparr>)"
proof -
  show "check_for_keystroke k1 c =
      (ERROR_SUCCESS,
       key_event (stick_vk VK_PAD_RTHUMB_UP (sThumbRX (last_keystroke c)) (sThumbRY (last_keystroke c)))
         XINPUT_KEYSTROKE_KEYUP,
       c\<lparr>last_keystroke := (last_keystroke c)
          \<lparr>sThumbLX := sThumbLX (Gamepad (state c)), sThumbLY := sThumbLY (Gamepad (state c)),
           sThumbRX := 0, sThumbRY := 0\<rparr>\<rparr>)"
    unfolding check_for_keystroke_sticks [OF assms(1)]
    by (simp add: check_joystick_keystroke_empty [OF assms(2)]
        check_joystick_keystroke_up [OF _ assms(3,4,5)])
  define c1 where "c1 = c\<lparr>last_keystroke := (last_keystroke c)
          \<lparr>sThumbLX := sThumbLX (Gamepad (state c)), sThumbLY := sThumbLY (Gamepad (state c)),
           sThumbRX := 0, sThumbRY := 0\<rparr>\<rparr>"
  have q: "keys_quiet c1"
    using assms(1) by (simp add: c1_def keys_quiet_thumbs)
  have e: "same_direction (sThumbLX (Gamepad (state c))) (sThumbLY (Gamepad (state c)))
      (sThumbLX (Gamepad (state c))) (sThumbLY (Gamepad (state c)))"
    by (simp add: same_direction_def)
  show "check_for_keystroke k2
        (c\<lparr>last_keystroke := (last_keystroke c)
          \<lparr>sThumbLX := sThumbLX (Gamepad (state c)), sThumbLY := sThumbLY (Gamepad (state c)),
           sThumbRX := 0, sThumbRY := 0\<rparr>\<rparr>) =
      (ERROR_SUCCESS,
       key_event (stick_vk VK_PAD_RTHUMB_UP (sThumbRX (Gamepad (state c))) (sThumbRY (Gamepad (state c))))
         XINPUT_KEYSTROKE_KEYDOWN,
       c\<lparr>last_keystroke := (last_keystroke c)
          \<lparr>sThumbLX := sThumbLX (Gamepad (state c)), sThumbLY := sThumbLY (Gamepad (state c)),
           sThumbRX := sThumbRX (Gamepad (state c)), sThumbRY := sThumbRY (Gamepad (state c))\<rparr>\<rparr>)"
    unfolding c1_def [symmetric] check_for_keystroke_sticks [OF q]
    by (simp add: c1_def check_joystick_keystroke_empty [OF e]
        check_joystick_keystroke_down [OF _ assms(4)])
qed


lemma js_vk_offs_table:
  "js_vk_offs JS_STATE_OFF JS_STATE_HIGH = 0" "js_vk_offs JS_STATE_OFF JS_STATE_LOW = 1"
  "js_vk_offs JS_STATE_HIGH JS_STATE_OFF = 2" "js_vk_offs JS_STATE_LOW JS_STATE_OFF = 3"
  "js_vk_offs JS_STATE_LOW JS_STATE_HIGH = 4" "js_vk_offs JS_STATE_HIGH JS_STATE_HIGH = 5"
  "js_vk_offs JS_STATE_HIGH JS_STATE_LOW = 6" "js_vk_offs JS_STATE_LOW JS_STATE_LOW = 7"
  by (simp_all add: js_vk_offs_def JS_STATE_defs)

lemma stick_transition_api:
  assumes "connected (controller g)" and "index = 0 \<or> index = XUSER_INDEX_ANY"
    and "keys_quiet (controller g)"
    and "cur = Gamepad (state (controller g))" and "old = last_keystroke (controller g)"
  shows
    "(\<not> stick_centered (sThumbLX old) (sThumbLY old)
      \<and> \<not> stick_centered (sThumbLX cur) (sThumbLY cur)
      \<and> \<not> same_direction (sThumbLX old) (sThumbLY old) (sThumbLX cur) (sThumbLY cur)
      \<longrightarrow>
        XInputGetKeystroke index ra ka g =
          (ERROR_SUCCESS,
           key_event (stick_vk VK_PAD_LTHUMB_UP (sThumbLX old) (sThumbLY old)) XINPUT_KEYSTROKE_KEYUP,
           g\<lparr>controller := (controller g)\<lparr>last_keystroke :=
                old\<lparr>sThumbLX := 0, sThumbLY := 0\<rparr>\<rparr>\<rparr>)
      \<and> XInputGetKeystroke index rb kb
            (g\<lparr>controller := (controller g)\<lparr>last_keystroke :=
                old\<lparr>sThumbLX := 0, sThumbLY := 0\<rparr>\<rparr>\<rparr>) =
          (ERROR_SUCCESS,
           key_event (stick_vk VK_PAD_LTHUMB_UP (sThumbLX cur) (sThumbLY cur)) XINPUT_KEYSTROKE_KEYDOWN,
           g\<lparr>controller := (controller g)\<lparr>last_keystroke :=
                old\<lparr>sThumbLX := sThumbLX cur, sThumbLY := sThumbLY cur\<rparr>\<rparr>\<rparr>))
     \<and> (same_direction (sThumbLX old) (sThumbLY old) (sThumbLX cur) (sThumbLY cur)
      \<and> \<not> stick_centered (sThumbRX old) (sThumbRY old)
      \<and> \<not> stick_centered (sThumbRX cur) (sThumbRY cur)
      \<and> \<not> same_direction (sThumbRX old) (sThumbRY old) (sThumbRX cur) (sThumbRY cur)
      \<longrightarrow>
        XInputGetKeystroke index ra ka g =
          (ERROR_SUCCESS,
           key_event (stick_vk VK_PAD_RTHUMB_UP (sThumbRX old) (sThumbRY old)) XINPUT_KEYSTROKE_KEYUP,
           g\<lparr>controller := (controller g)\<lparr>last_keystroke :=
                old\<lparr>sThumbLX := sThumbLX cur, sThumbLY := sThumbLY cur,
                    sThumbRX := 0, sThumbRY := 0\<rparr>\<rparr>\<rparr>)
      \<and> XInputGetKeystroke index rb kb
            (g\<lparr>controller := (controller g)\<lparr>last_keystroke :=
                old\<lparr>sThumbLX := sThumbLX cur, sThumbLY := sThumbLY cur,
                    sThumbRX := 0, sThumbRY := 0\<rparr>\<rparr>\<rparr>) =
          (ERROR_SUCCESS,
           key_event (stick_vk VK_PAD_RTHUMB_UP (sThumbRX cur) (sThumbRY cur)) XINPUT_KEYSTROKE_KEYDOWN,
           g\<lparr>controller := (controller g)\<lparr>last_keystroke :=
                old\<lparr>sThumbLX := sThumbLX cur, sThumbLY := sThumbLY cur,
                    sThumbRX := sThumbRX cur, sThumbRY := sThumbRY cur\<rparr>\<rparr>\<rparr>))"
proof -
  define c where "c = controller g"
  have x: "XInputGetKeystroke index r k (g\<lparr>controller := c'\<rparr>) =
     (case check_for_keystroke k c' of (ret, k', c'') \<Rightarrow> (ret, k', g\<lparr>controller := c''\<rparr>))"
    if "connected c'" for r k c'
    using that assms(2) by (simp add: XInputGetKeystroke_connected)
  have g: "g\<lparr>controller := c\<rparr> = g"
    by (simp add: c_def)
  have n: "connected c" "connected (c\<lparr>last_keystroke := l\<rparr>)" for l
    using assms(1) by (simp_all add: c_def)
  have q: "keys_quiet c"
    using assms(3) by (simp add: c_def)
  have y: "XInputGetKeystroke index r k g =
     (case check_for_keystroke k c of (ret, k', c'') \<Rightarrow> (ret, k', g\<lparr>controller := c''\<rparr>))" for r k
    using x [OF n(1), of r k] by (simp add: g)
  show ?thesis
    unfolding assms(4,5) c_def [symmetric]
  proof (intro conjI impI; elim conjE)
    assume a: "\<not> stick_centered (sThumbLX (last_keystroke c)) (sThumbLY (last_keystroke c))"
      "\<not> stick_centered (sThumbLX (Gamepad (state c))) (sThumbLY (Gamepad (state c)))"
      "\<not> same_direction (sThumbLX (last_keystroke c)) (sThumbLY (last_keystroke c))
           (sThumbLX (Gamepad (state c))) (sThumbLY (Gamepad (state c)))"
    show "XInputGetKeystroke index ra ka g =
          (ERROR_SUCCESS,
           key_event (stick_vk VK_PAD_LTHUMB_UP (sThumbLX (last_keystroke c)) (sThumbLY (last_keystroke c)))
             XINPUT_KEYSTROKE_KEYUP,
           g\<lparr>controller := c\<lparr>last_keystroke :=
                (last_keystroke c)\<lparr>sThumbLX := 0, sThumbLY := 0\<rparr>\<rparr>\<rparr>)"
      unfolding y by (simp add: left_stick_transition(1) [OF q a])
    show "XInputGetKeystroke index rb kb
            (g\<lparr>controller := c\<lparr>last_keystroke :=
                (last_keystroke c)\<lparr>sThumbLX := 0, sThumbLY := 0\<rparr>\<rparr>\<rparr>) =
          (ERROR_SUCCESS,
           key_event (stick_vk VK_PAD_LTHUMB_UP (sThumbLX (Gamepad (state c))) (sThumbLY (Gamepad (state c))))
             XINPUT_KEYSTROKE_KEYDOWN,
           g\<lparr>controller := c\<lparr>last_keystroke :=
                (last_keystroke c)\<lparr>sThumbLX := sThumbLX (Gamepad (state c)),
                   sThumbLY := sThumbLY (Gamepad (state c))\<rparr>\<rparr>\<rparr>)"
      unfolding x [OF n(2)] by (simp add: left_stick_transition(2) [OF q a])
  next
    assume a: "same_direction (sThumbLX (last_keystroke c)) (sThumbLY (last_keystroke c))
           (sThumbLX (Gamepad (state c))) (sThumbLY (Gamepad (state c)))"
      "\<not> stick_centered (sThumbRX (last_keystroke c)) (sThumbRY (last_keystroke c))"
      "\<not> stick_centered (sThumbRX (Gamepad (state c))) (sThumbRY (Gamepad (state c)))"
      "\<not> same_direction (sThumbRX (last_keystroke c)) (sThumbRY (last_keystroke c))
           (sThumbRX (Gamepad (state c))) (sThumbRY (Gamepad (state c)))"
    show "XInputGetKeystroke index ra ka g =
          (ERROR_SUCCESS,
           key_event (stick_vk VK_PAD_RTHUMB_UP (sThumbRX (last_keystroke c)) (sThumbRY (last_keystroke c)))
             XINPUT_KEYSTROKE_KEYUP,
           g\<lparr>controller := c\<lparr>last_keystroke :=
                (last_keystroke c)\<lparr>sThumbLX := sThumbLX (Gamepad (state c)),
                    sThumbLY := sThumbLY (Gamepad (state c)),
                    sThumbRX := 0, sThumbRY := 0\<rparr>\<rparr>\<rparr>)"
      unfolding y by (simp add: right_stick_transition(1) [OF q a])
    show "XInputGetKeystroke index rb kb
            (g\<lparr>controller := c\<lparr>last_keystroke :=
                (last_keystroke c)\<lparr>sThumbLX := sThumbLX (Gamepad (state c)),
                    sThumbLY := sThumbLY (Gamepad (state c)),
                    sThumbRX := 0, sThumbRY := 0\<rparr>\<rparr>\<rparr>) =
          (ERROR_SUCCESS,
           key_event (stick_vk VK_PAD_RTHUMB_UP (sThumbRX (Gamepad (state c))) (sThumbRY (Gamepad (state c))))
             XINPUT_KEYSTROKE_KEYDOWN,
           g\<lparr>controller := c\<lparr>last_keystroke :=
                (last_keystroke c)\<lparr>sThumbLX := sThumbLX (Gamepad (state c)),
                    sThumbLY := sThumbLY (Gamepad (state c)),
                    sThumbRX := sThumbRX (Gamepad (state c)),
                    sThumbRY := sThumbRY (Gamepad (state c))\<rparr>\<rparr>\<rparr>)"
      unfolding x [OF n(2)] by (simp add: right_stick_transition(2) [OF q a])
  qed
qed


text \<open>
  Claim C5, amended. Let the remembered position of a stick have direction a and its
  current position direction b, both non-null and distinct. The stick differencer
  \<open>check_joystick_keystroke\<close> then returns KEYUP for the virtual key of a and resets the
  remembered axes to (0, 0), and called again on the same current position it returns
  KEYDOWN for the virtual key of b and remembers the current axes. Two consecutive
  \<open>XInputGetKeystroke\<close> calls, at index 0 or \<open>XUSER_INDEX_ANY\<close> with the controller
  connected, return exactly these two events, in this order, provided no table button
  differs and no trigger has changed its on-state between the current pad and
  \<open>last_keystroke\<close>, and, for the right stick, the left stick has not changed
  direction.
\<close>

theorem stick_transition_keystrokes:
  assumes "cur = Gamepad (state (controller g))" and "old = last_keystroke (controller g)"
  shows
    "((base_vk = VK_PAD_LTHUMB_UP \<or> base_vk = VK_PAD_RTHUMB_UP)
      \<and> \<not> stick_centered last_x last_y \<and> \<not> stick_centered cur_x cur_y
      \<and> \<not> same_direction last_x last_y cur_x cur_y
      \<longrightarrow>
        check_joystick_keystroke ka cur_x cur_y last_x last_y base_vk =
          (ERROR_SUCCESS, key_event (stick_vk base_vk last_x last_y) XINPUT_KEYSTROKE_KEYUP, 0, 0)
      \<and> check_joystick_keystroke kb cur_x cur_y 0 0 base_vk =
          (ERROR_SUCCESS, key_event (stick_vk base_vk cur_x cur_y) XINPUT_KEYSTROKE_KEYDOWN,
           cur_x, cur_y))
     \<and> (connected (controller g) \<and> (index = 0 \<or> index = XUSER_INDEX_ANY)
         \<and> keys_quiet (controller g)
      \<longrightarrow>
     (\<not> stick_centered (sThumbLX old) (sThumbLY old)
      \<and> \<not> stick_centered (sThumbLX cur) (sThumbLY cur)
      \<and> \<not> same_direction (sThumbLX old) (sThumbLY old) (sThumbLX cur) (sThumbLY cur)
      \<longrightarrow>
        XInputGetKeystroke index ra ka g =
          (ERROR_SUCCESS,
           key_event (stick_vk VK_PAD_LTHUMB_UP (sThumbLX old) (sThumbLY old)) XINPUT_KEYSTROKE_KEYUP,
           g\<lparr>controller := (controller g)\<lparr>last_keystroke :=
                old\<lparr>sThumbLX := 0, sThumbLY := 0\<rparr>\<rparr>\<rparr>)
      \<and> XInputGetKeystroke index rb kb
            (g\<lparr>controller := (controller g)\<lparr>last_keystroke :=
                old\<lparr>sThumbLX := 0, sThumbLY := 0\<rparr>\<rparr>\<rparr>) =
          (ERROR_SUCCESS,
           key_event (stick_vk VK_PAD_LTHUMB_UP (sThumbLX cur) (sThumbLY cur)) XINPUT_KEYSTROKE_KEYDOWN,
           g\<lparr>controller := (controller g)\<lparr>last_keystroke :=
                old\<lparr>sThumbLX := sThumbLX cur, sThumbLY := sThumbLY cur\<rparr>\<rparr>\<rparr>))
     \<and> (same_direction (sThumbLX old) (sThumbLY old) (sThumbLX cur) (sThumbLY cur)
      \<and> \<not> stick_centered (sThumbRX old) (sThumbRY old)
      \<and> \<not> stick_centered (sThumbRX cur) (sThumbRY cur)
      \<and> \<not> same_direction (sThumbRX old) (sThumbRY old) (sThumbRX cur) (sThumbRY cur)
      \<longrightarrow>
        XInputGetKeystroke index ra ka g =
          (ERROR_SUCCESS,
           key_event (stick_vk VK_PAD_RTHUMB_UP (sThumbRX old) (sThumbRY old)) XINPUT_KEYSTROKE_KEYUP,
           g\<lparr>controller := (controller g)\<lparr>last_keystroke :=
                old\<lparr>sThumbLX := sThumbLX cur, sThumbLY := sThumbLY cur,
                    sThumbRX := 0, sThumbRY := 0\<rparr>\<rparr>\<rparr>)
      \<and> XInputGetKeystroke index rb kb
            (g\<lparr>controller := (controller g)\<lparr>last_keystroke :=
                old\<lparr>sThumbLX := sThumbLX cur, sThumbLY := sThumbLY cur,
                    sThumbRX := 0, sThumbRY := 0\<rparr>\<rparr>\<rparr>) =
          (ERROR_SUCCESS,
           key_event (stick_vk VK_PAD_RTHUMB_UP (sThumbRX cur) (sThumbRY cur)) XINPUT_KEYSTROKE_KEYDOWN,
           g\<lparr>controller := (controller g)\<lparr>last_keystroke :=
                old\<lparr>sThumbLX := sThumbLX cur, sThumbLY := sThumbLY cur,
                    sThumbRX := sThumbRX cur, sThumbRY := sThumbRY cur\<rparr>\<rparr>\<rparr>)))"
proof (rule conjI)
  show "(base_vk = VK_PAD_LTHUMB_UP \<or> base_vk = VK_PAD_RTHUMB_UP)
      \<and> \<not> stick_centered last_x last_y \<and> \<not> stick_centered cur_x cur_y
      \<and> \<not> same_direction last_x last_y cur_x cur_y
      \<longrightarrow>
        check_joystick_keystroke ka cur_x cur_y last_x last_y base_vk =
          (ERROR_SUCCESS, key_event (stick_vk base_vk last_x last_y) XINPUT_KEYSTROKE_KEYUP, 0, 0)
      \<and> check_joystick_keystroke kb cur_x cur_y 0 0 base_vk =
          (ERROR_SUCCESS, key_event (stick_vk base_vk cur_x cur_y) XINPUT_KEYSTROKE_KEYDOWN,
           cur_x, cur_y)"
    by (simp add: check_joystick_keystroke_up check_joystick_keystroke_down)
next
  show "connected (controller g) \<and> (index = 0 \<or> index = XUSER_INDEX_ANY)
         \<and> keys_quiet (controller g)
      \<longrightarrow>
     (\<not> stick_centered (sThumbLX old) (sThumbLY old)
      \<and> \<not> stick_centered (sThumbLX cur) (sThumbLY cur)
      \<and> \<not> same_direction (sThumbLX old) (sThumbLY old) (sThumbLX cur) (sThumbLY cur)
      \<longrightarrow>
        XInputGetKeystroke index ra ka g =
          (ERROR_SUCCESS,
           key_event (stick_vk VK_PAD_LTHUMB_UP (sThumbLX old) (sThumbLY old)) XINPUT_KEYSTROKE_KEYUP,
           g\<lparr>controller := (controller g)\<lparr>last_keystroke :=
                old\<lparr>sThumbLX := 0, sThumbLY := 0\<rparr>\<rparr>\<rparr>)
      \<and> XInputGetKeystroke index rb kb
            (g\<lparr>controller := (controller g)\<lparr>last_keystroke :=
                old\<lparr>sThumbLX := 0, sThumbLY := 0\<rparr>\<rparr>\<rparr>) =
          (ERROR_SUCCESS,
           key_event (stick_vk VK_PAD_LTHUMB_UP (sThumbLX cur) (sThumbLY cur)) XINPUT_KEYSTROKE_KEYDOWN,
           g\<lparr>controller := (controller g)\<lparr>last_keystroke :=
                old\<lparr>sThumbLX := sThumbLX cur, sThumbLY := sThumbLY cur\<rparr>\<rparr>\<rparr>))
     \<and> (same_direction (sThumbLX old) (sThumbLY old) (sThumbLX cur) (sThumbLY cur)
      \<and> \<not> stick_centered (sThumbRX old) (sThumbRY old)
      \<and> \<not> stick_centered (sThumbRX cur) (sThumbRY cur)
      \<and> \<not> same_direction (sThumbRX old) (sThumbRY old) (sThumbRX cur) (sThumbRY cur)
      \<longrightarrow>
        XInputGetKeystroke index ra ka g =
          (ERROR_SUCCESS,
           key_event (stick_vk VK_PAD_RTHUMB_UP (sThumbRX old) (sThumbRY old)) XINPUT_KEYSTROKE_KEYUP,
           g\<lparr>controller := (controller g)\<lparr>last_keystroke :=
                old\<lparr>sThumbLX := sThumbLX cur, sThumbLY := sThumbLY cur,
                    sThumbRX := 0, sThumbRY := 0\<rparr>\<rparr>\<rparr>)
      \<and> XInputGetKeystroke index rb kb
            (g\<lparr>controller := (controller g)\<lparr>last_keystroke :=
                old\<lparr>sThumbLX := sThumbLX cur, sThumbLY := sThumbLY cur,
                    sThumbRX := 0, sThumbRY := 0\<rparr>\<rparr>\<rparr>) =
          (ERROR_SUCCESS,
           key_event (stick_vk VK_PAD_RTHUMB_UP (sThumbRX cur) (sThumbRY cur)) XINPUT_KEYSTROKE_KEYDOWN,
           g\<lparr>controller := (controller g)\<lparr>last_keystroke :=
                old\<lparr>sThumbLX := sThumbLX cur, sThumbLY := sThumbLY cur,
                    sThumbRX := sThumbRX cur, sThumbRY := sThumbRY cur\<rparr>\<rparr>\<rparr>))"
  proof (intro impI, elim conjE)
    assume "connected (controller g)" and "index = 0 \<or> index = XUSER_INDEX_ANY"
      and "keys_quiet (controller g)"
    from stick_transition_api [OF this assms, of ra ka rb kb]
    show "(\<not> stick_centered (sThumbLX old) (sThumbLY old)
      \<and> \<not> stick_centered (sThumbLX cur) (sThumbLY cur)
      \<and> \<not> same_direction (sThumbLX old) (sThumbLY old) (sThumbLX cur) (sThumbLY cur)
      \<longrightarrow>
        XInputGetKeystroke index ra ka g =
          (ERROR_SUCCESS,
           key_event (stick_vk VK_PAD_LTHUMB_UP (sThumbLX old) (sThumbLY old)) XINPUT_KEYSTROKE_KEYUP,
           g\<lparr>controller := (controller g)\<lparr>last_keystroke :=
                old\<lparr>sThumbLX := 0, sThumbLY := 0\<rparr>\<rparr>\<rparr>)
      \<and> XInputGetKeystroke index rb kb
            (g\<lparr>controller := (controller g)\<lparr>last_keystroke :=
                old\<lparr>sThumbLX := 0, sThumbLY := 0\<rparr>\<rparr>\<rparr>) =
          (ERROR_SUCCESS,
           key_event (stick_vk VK_PAD_LTHUMB_UP (sThumbLX cur) (sThumbLY cur)) XINPUT_KEYSTROKE_KEYDOWN,
           g\<lparr>controller := (controller g)\<lparr>last_keystroke :=
                old\<lparr>sThumbLX := sThumbLX cur, sThumbLY := sThumbLY cur\<rparr>\<rparr>\<rparr>))
     \<and> (same_direction (sThumbLX old) (sThumbLY old) (sThumbLX cur) (sThumbLY cur)
      \<and> \<not> stick_centered (sThumbRX old) (sThumbRY old)
      \<and> \<not> stick_centered (sThumbRX cur) (sThumbRY cur)
      \<and> \<not> same_direction (sThumbRX old) (sThumbRY old) (sThumbRX cur) (sThumbRY cur)
      \<longrightarrow>
        XInputGetKeystroke index ra ka g =
          (ERROR_SUCCESS,
           key_event (stick_vk VK_PAD_RTHUMB_UP (sThumbRX old) (sThumbRY old)) XINPUT_KEYSTROKE_KEYUP,
           g\<lparr>controller := (controller g)\<lparr>last_keystroke :=
                old\<lparr>sThumbLX := sThumbLX cur, sThumbLY := sThumbLY cur,
                    sThumbRX := 0, sThumbRY := 0\<rparr>\<rparr>\<rparr>)
      \<and> XInputGetKeystroke index rb kb
            (g\<lparr>controller := (controller g)\<lparr>last_keystroke :=
                old\<lparr>sThumbLX := sThumbLX cur, sThumbLY := sThumbLY cur,
                    sThumbRX := 0, sThumbRY := 0\<rparr>\<rparr>\<rparr>) =
          (ERROR_SUCCESS,
           key_event (stick_vk VK_PAD_RTHUMB_UP (sThumbRX cur) (sThumbRY cur)) XINPUT_KEYSTROKE_KEYDOWN,
           g\<lparr>controller := (controller g)\<lparr>last_keystroke :=
                old\<lparr>sThumbLX := sThumbLX cur, sThumbLY := sThumbLY cur,
                    sThumbRX := sThumbRX cur, sThumbRY := sThumbRY cur\<rparr>\<rparr>\<rparr>))"
      .
  qed
qed

theorem stick_transition_keystrokes_witness:
  "XInputGetKeystroke 0 0 (key_event 0 0) stick_rotated =
     (ERROR_SUCCESS, key_event VK_PAD_LTHUMB_UP XINPUT_KEYSTROKE_KEYUP,
      stick_rotated\<lparr>controller := (controller stick_rotated)\<lparr>last_keystroke := zero_gamepad\<rparr>\<rparr>)
   \<and> XInputGetKeystroke 0 0 (key_event 0 0)
       (stick_rotated\<lparr>controller := (controller stick_rotated)\<lparr>last_keystroke := zero_gamepad\<rparr>\<rparr>) =
     (ERROR_SUCCESS, key_event VK_PAD_LTHUMB_RIGHT XINPUT_KEYSTROKE_KEYDOWN,
      stick_rotated\<lparr>controller := (controller stick_rotated)\<lparr>last_keystroke :=
         zero_gamepad\<lparr>sThumbLX := 25000, sThumbLY := 0\<rparr>\<rparr>\<rparr>)"
proof -
  have j: "joystick_state 25000 = JS_STATE_HIGH" "joystick_state 0 = JS_STATE_OFF"
    by (simp_all add: joystick_state_def word_sless_alt)
  have c: "Gamepad (state (controller stick_rotated)) = zero_gamepad\<lparr>sThumbLX := 25000, sThumbLY := 0\<rparr>"
    "last_keystroke (controller stick_rotated) = zero_gamepad\<lparr>sThumbLX := 0, sThumbLY := 25000\<rparr>"
    by (simp_all add: stick_rotated_def)
  have 1: "connected (controller stick_rotated)"
    by (simp add: stick_rotated_def just_connected_eq)
  have 2: "(0 :: DWORD) = 0 \<or> (0 :: DWORD) = XUSER_INDEX_ANY"
    by simp
  have 3: "keys_quiet (controller stick_rotated)"
    by (simp add: keys_quiet_def c zero_gamepad_def)
  have 4: "\<not> stick_centered (sThumbLX (zero_gamepad\<lparr>sThumbLX := 0, sThumbLY := 25000\<rparr>))
        (sThumbLY (zero_gamepad\<lparr>sThumbLX := 0, sThumbLY := 25000\<rparr>))
      \<and> \<not> stick_centered (sThumbLX (zero_gamepad\<lparr>sThumbLX := 25000, sThumbLY := 0\<rparr>))
        (sThumbLY (zero_gamepad\<lparr>sThumbLX := 25000, sThumbLY := 0\<rparr>))
      \<and> \<not> same_direction (sThumbLX (zero_gamepad\<lparr>sThumbLX := 0, sThumbLY := 25000\<rparr>))
        (sThumbLY (zero_gamepad\<lparr>sThumbLX := 0, sThumbLY := 25000\<rparr>))
        (sThumbLX (zero_gamepad\<lparr>sThumbLX := 25000, sThumbLY := 0\<rparr>))
        (sThumbLY (zero_gamepad\<lparr>sThumbLX := 25000, sThumbLY := 0\<rparr>))"
    by (simp add: stick_centered_def same_direction_def j JS_STATE_defs)
  have v: "stick_vk VK_PAD_LTHUMB_UP 0 25000 = VK_PAD_LTHUMB_UP"
    "stick_vk VK_PAD_LTHUMB_UP 25000 0 = VK_PAD_LTHUMB_RIGHT"
    by (simp_all add: stick_vk_def j js_vk_offs_table VK_PAD_LTHUMB_UP_def VK_PAD_LTHUMB_RIGHT_def)
  have z: "zero_gamepad\<lparr>sThumbLX := 0, sThumbLY := 0\<rparr> = zero_gamepad"
    by (simp add: zero_gamepad_def)
  from stick_transition_keystrokes [OF c(1) [symmetric] c(2) [symmetric],
      where index = 0 and ra = 0 and ka = "key_event 0 0" and rb = 0 and kb = "key_event 0 0"]
    1 2 3 4
  show ?thesis
    by (simp add: v z)
qed

section \<open>Axes of a state frame\<close>

lemma or_is_add: "(ucast (lo :: 8 word) :: 16 word) OR push_bit 8 (ucast (hi :: 8 word))
    = ucast lo + push_bit 8 (ucast hi)"
proof -
  have "(ucast lo :: 16 word) AND push_bit 8 (ucast hi) = 0"
    by (rule bit_eqI) (auto simp: bit_simps dest: bit_imp_le_length)
  then show ?thesis
    by (rule disjunctive_add_eq_or [symmetric])
qed

lemma uint_le16:
  "uint ((ucast (lo :: 8 word) :: 16 word) OR push_bit 8 (ucast (hi :: 8 word)))
     = uint lo + 256 * uint hi"
proof -
  have l: "uint (ucast lo :: 16 word) = uint lo"
    by (rule uint_up_ucast) (simp add: is_up)
  have h: "uint (ucast hi :: 16 word) = uint hi"
    by (rule uint_up_ucast) (simp add: is_up)
  have bl: "0 \<le> uint lo" "uint lo < 256" and bh: "0 \<le> uint hi" "uint hi < 256"
    using uint_bounded [of lo] uint_bounded [of hi] by simp_all
  have "uint (push_bit 8 (ucast hi :: 16 word)) = (256 * uint hi) mod 65536"
    by (simp add: push_bit_eq_mult uint_word_ariths h mult.commute)
  moreover from bh have "(256 * uint hi) mod 65536 = 256 * uint hi"
    by (intro mod_pos_pos_trivial) simp_all
  ultimately have p: "uint (push_bit 8 (ucast hi :: 16 word)) = 256 * uint hi"
    by simp
  have "uint ((ucast lo :: 16 word) + push_bit 8 (ucast hi))
      = (uint lo + 256 * uint hi) mod 65536"
    by (simp add: uint_word_ariths l p)
  moreover from bl bh have "(uint lo + 256 * uint hi) mod 65536 = uint lo + 256 * uint hi"
    by (intro mod_pos_pos_trivial) simp_all
  ultimately show ?thesis
    unfolding or_is_add by simp
qed

lemma sint_from_uint:
  "sint (w :: 16 word) = (if uint w < 32768 then uint w else uint w - 65536)"
proof -
  have b: "0 \<le> uint w" "uint w < 65536"
    using uint_bounded [of w] by simp_all
  have s: "sint w = (uint w + 32768) mod 65536 - 32768"
    by (simp add: sint_uint signed_take_bit_eq_take_bit_shift take_bit_eq_mod)
  show ?thesis
  proof (cases "uint w < 32768")
    case True
    with b have "(uint w + 32768) mod 65536 = uint w + 32768"
      by (intro mod_pos_pos_trivial) simp_all
    with True show ?thesis by (simp add: s)
  next
    case False
    have e: "uint w + 32768 = (uint w - 32768) + 65536"
      by arith
    have "(uint w + 32768) mod 65536 = (uint w - 32768) mod 65536"
      unfolding e by (simp only: mod_add_self2)
    also from False b have "\<dots> = uint w - 32768"
      by (intro mod_pos_pos_trivial) simp_all
    finally show ?thesis
      using False by (simp add: s)
  qed
qed

lemma sint_minus16:
  "sint (- (v :: 16 word)) = (if sint v = - 32768 then - 32768 else - sint v)"
proof (cases "sint v = - 32768")
  case True
  then show ?thesis by (simp add: sint_word_ariths)
next
  case False
  with sint_range_size [of v] show ?thesis
    by (simp add: sint_word_ariths signed_take_bit_int_eq_self_iff word_size)
qed

lemma sint_read_short: "sint (read_short b n) = wire_short b n"
  unfolding sint_from_uint read_short_def uint_le16 wire_short_def ..

lemma state_frame_axes:
  assumes "connected (controller g)" and "buffer ! 0 = REQUEST_CODE_GET_GAMEPAD_STATE"
    and "frame_accepted buffer (controller g)"
  shows "fst (XInputGetState 0 (Some st) (controller_read_thread_frame buffer g)) = ERROR_SUCCESS"
    and "map_option dwPacketNumber
           (fst (snd (XInputGetState 0 (Some st) (controller_read_thread_frame buffer g))))
         = Some (dwPacketNumber (state (controller g)) + 1)"
    and "map_option pad_axes
           (fst (snd (XInputGetState 0 (Some st) (controller_read_thread_frame buffer g))))
         = Some (wire_short buffer 9,
                 (if wire_short buffer 11 = - 32768 then - 32768 else - wire_short buffer 11),
                 wire_short buffer 13,
                 (if wire_short buffer 15 = - 32768 then - 32768 else - wire_short buffer 15))"
proof -
  define g1 where "g1 = controller_read_thread_frame buffer g"
  have g1: "g1 = g\<lparr>controller := controller_update_state buffer (controller g)\<rparr>"
    unfolding g1_def using assms(2,1) by (rule controller_read_thread_frame_state)
  have c: "connected (controller g1)"
    by (simp add: g1 controller_update_state_accepted [OF assms(3)] assms(1))
  have x: "xinput_get_state 0 (Some st) g1 =
      (ERROR_SUCCESS, Some (state (controller g1)), (start_read_thread g1)\<lparr>xinput_min_index := 0\<rparr>)"
    by (simp add: xinput_get_state_effective XUSER_MAX_COUNT_def c)
  have s1: "dwPacketNumber (state (controller g1)) = dwPacketNumber (state (controller g)) + 1"
    "sThumbLX (Gamepad (state (controller g1))) = read_short buffer 9"
    "sThumbLY (Gamepad (state (controller g1))) = - read_short buffer 11"
    "sThumbRX (Gamepad (state (controller g1))) = read_short buffer 13"
    "sThumbRY (Gamepad (state (controller g1))) = - read_short buffer 15"
    by (simp_all add: g1 controller_update_state_accepted [OF assms(3)])
  show "fst (XInputGetState 0 (Some st) (controller_read_thread_frame buffer g)) = ERROR_SUCCESS"
    unfolding g1_def [symmetric] by (simp add: fst_XInputGetState x)
  show "map_option dwPacketNumber
           (fst (snd (XInputGetState 0 (Some st) (controller_read_thread_frame buffer g))))
         = Some (dwPacketNumber (state (controller g)) + 1)"
    unfolding g1_def [symmetric]
    by (simp add: XInputGetState_def x s1)
  show "map_option pad_axes
           (fst (snd (XInputGetState 0 (Some st) (controller_read_thread_frame buffer g))))
         = Some (wire_short buffer 9,
                 (if wire_short buffer 11 = - 32768 then - 32768 else - wire_short buffer 11),
                 wire_short buffer 13,
                 (if wire_short buffer 15 = - 32768 then - 32768 else - wire_short buffer 15))"
    unfolding g1_def [symmetric]
    by (simp add: XInputGetState_def x s1 pad_axes_def sint_minus16 sint_read_short)
qed

lemma frame_axes_facts:
  "connected (controller just_connected)" "frame_axes ! 0 = REQUEST_CODE_GET_GAMEPAD_STATE"
  "frame_accepted frame_axes (controller just_connected)"
  "wire_short frame_axes 9 = 1000" "wire_short frame_axes 11 = 30000"
  "wire_short frame_axes 13 = - 2000" "wire_short frame_axes 15 = - 123"
  by (simp_all add: just_connected_eq frame_axes_def REQUEST_CODE_GET_GAMEPAD_STATE_def
      frame_accepted_def read_int_def wire_short_def)

lemma frame_ly_min_facts:
  "frame_ly_min ! 0 = REQUEST_CODE_GET_GAMEPAD_STATE"
  "frame_accepted frame_ly_min (controller just_connected)"
  "wire_short frame_ly_min 9 = 0" "wire_short frame_ly_min 11 = - 32768"
  "wire_short frame_ly_min 13 = 0" "wire_short frame_ly_min 15 = 0"
  by (simp_all add: just_connected_eq frame_ly_min_def REQUEST_CODE_GET_GAMEPAD_STATE_def
      frame_accepted_def read_int_def wire_short_def)

text \<open>
  Claim C4, amended. For every state frame accepted while the controller is connected, the
  next \<open>XInputGetState\<close> at index 0 returns \<open>ERROR_SUCCESS\<close> with the packet number
  one higher, the horizontal axes equal to the wire values, and the vertical axes equal to
  the arithmetic negation of the wire values, except that the wire value -32768 is stored
  as -32768. In scenario 2 (just connected with id 42, then the frame with status 1, id 42,
  buttons 0x0001, dpad 4, ly 30000 and the other axes 0) the call returns buttons
  A OR DPAD_DOWN, \<open>sThumbLY\<close> = -30000, the other axes 0, both triggers 0 and packet
  number 1.
\<close>

theorem state_frame_update:
  "(connected (controller g) \<and> buffer ! 0 = REQUEST_CODE_GET_GAMEPAD_STATE
      \<and> frame_accepted buffer (controller g)
    \<longrightarrow>
      fst (XInputGetState 0 (Some st) (controller_read_thread_frame buffer g)) = ERROR_SUCCESS
    \<and> map_option dwPacketNumber
          (fst (snd (XInputGetState 0 (Some st) (controller_read_thread_frame buffer g))))
        = Some (dwPacketNumber (state (controller g)) + 1)
    \<and> map_option pad_axes
          (fst (snd (XInputGetState 0 (Some st) (controller_read_thread_frame buffer g))))
        = Some (wire_short buffer 9,
                (if wire_short buffer 11 = - 32768 then - 32768 else - wire_short buffer 11),
                wire_short buffer 13,
                (if wire_short buffer 15 = - 32768 then - 32768 else - wire_short buffer 15)))
   \<and> state (controller just_connected) = zero_state
   \<and> connected (controller just_connected) \<and> id_c (controller just_connected) = 42
   \<and> fst (XInputGetState 0 (Some st') (controller_read_thread_frame frame_state_update just_connected))
       = ERROR_SUCCESS
   \<and> fst (snd (XInputGetState 0 (Some st') (controller_read_thread_frame frame_state_update just_connected)))
       = Some \<lparr>dwPacketNumber = 1,
           Gamepad = \<lparr>wButtons = XINPUT_GAMEPAD_A OR XINPUT_GAMEPAD_DPAD_DOWN,
             bLeftTrigger = 0, bRightTrigger = 0,
             sThumbLX = 0, sThumbLY = - 30000, sThumbRX = 0, sThumbRY = 0\<rparr>\<rparr>
   \<and> sint (- 30000 :: SHORT) = - 30000"
proof (rule conjI)
  show "connected (controller g) \<and> buffer ! 0 = REQUEST_CODE_GET_GAMEPAD_STATE
      \<and> frame_accepted buffer (controller g)
    \<longrightarrow>
      fst (XInputGetState 0 (Some st) (controller_read_thread_frame buffer g)) = ERROR_SUCCESS
    \<and> map_option dwPacketNumber
          (fst (snd (XInputGetState 0 (Some st) (controller_read_thread_frame buffer g))))
        = Some (dwPacketNumber (state (controller g)) + 1)
    \<and> map_option pad_axes
          (fst (snd (XInputGetState 0 (Some st) (controller_read_thread_frame buffer g))))
        = Some (wire_short buffer 9,
                (if wire_short buffer 11 = - 32768 then - 32768 else - wire_short buffer 11),
                wire_short buffer 13,
                (if wire_short buffer 15 = - 32768 then - 32768 else - wire_short buffer 15))"
    using state_frame_axes [of g buffer st] by blast
next
  show "state (controller just_connected) = zero_state
   \<and> connected (controller just_connected) \<and> id_c (controller just_connected) = 42
   \<and> fst (XInputGetState 0 (Some st') (controller_read_thread_frame frame_state_update just_connected))
       = ERROR_SUCCESS
   \<and> fst (snd (XInputGetState 0 (Some st') (controller_read_thread_frame frame_state_update just_connected)))
       = Some \<lparr>dwPacketNumber = 1,
           Gamepad = \<lparr>wButtons = XINPUT_GAMEPAD_A OR XINPUT_GAMEPAD_DPAD_DOWN,
             bLeftTrigger = 0, bRightTrigger = 0,
             sThumbLX = 0, sThumbLY = - 30000, sThumbRX = 0, sThumbRY = 0\<rparr>\<rparr>
   \<and> sint (- 30000 :: SHORT) = - 30000"
    by (rule scenario_state_update)
qed

theorem state_frame_update_witness:
  "fst (XInputGetState 0 (Some zero_state) (controller_read_thread_frame frame_axes just_connected))
     = ERROR_SUCCESS
   \<and> map_option dwPacketNumber (fst (snd (XInputGetState 0 (Some zero_state)
        (controller_read_thread_frame frame_axes just_connected)))) = Some 1
   \<and> map_option pad_axes (fst (snd (XInputGetState 0 (Some zero_state)
        (controller_read_thread_frame frame_axes just_connected))))
       = Some (1000, - 30000, - 2000, 123)"
proof -
  have z: "dwPacketNumber (state (controller just_connected)) = 0"
    by (simp add: just_connected_eq zero_state_def)
  from state_frame_update [where g = just_connected and buffer = frame_axes and st = zero_state]
    frame_axes_facts
  show ?thesis
    by (simp add: z)
qed

text \<open>
  Claim C4 as stated fails in its general part: the vertical axes are not always the
  arithmetic negation of the wire value. For the accepted frame with ly = -32768 the next
  \<open>XInputGetState\<close> at index 0 reports \<open>sThumbLY\<close> = -32768, not 32768.
\<close>

theorem vertical_minimum_not_negated:
  "connected (controller just_connected)
   \<and> frame_ly_min ! 0 = REQUEST_CODE_GET_GAMEPAD_STATE
   \<and> frame_accepted frame_ly_min (controller just_connected)
   \<and> wire_short frame_ly_min 11 = - 32768
   \<and> fst (XInputGetState 0 (Some zero_state)
         (controller_read_thread_frame frame_ly_min just_connected)) = ERROR_SUCCESS
   \<and> map_option pad_axes (fst (snd (XInputGetState 0 (Some zero_state)
         (controller_read_thread_frame frame_ly_min just_connected))))
       = Some (0, - 32768, 0, 0)
   \<and> (- 32768 :: int) \<noteq> - wire_short frame_ly_min 11"
  using state_frame_axes(1,3) [OF frame_axes_facts(1) frame_ly_min_facts(1,2), of zero_state]
  by (simp add: frame_ly_min_facts frame_axes_facts(1))

section \<open>A button change together with a stick change\<close>

lemma decode_0: "decode_buttons 0 = 0" "button_set 0 10 = False" "button_set 0 11 = False"
  "decode_dpad 8 = 0"
  by (simp_all add: decode_buttons_def upt_10 button_set_def decode_dpad_def)

lemma frame_stick_up_step:
  "controller_read_thread_frame frame_stick_up just_connected = stick_up_seen"
proof -
  have a: "frame_accepted frame_stick_up (controller just_connected)"
    by (simp add: frame_accepted_def frame_stick_up_def just_connected_eq read_int_def)
  have f: "read_short frame_stick_up 6 = 0" "frame_stick_up ! 8 = 8"
    "read_short frame_stick_up 9 = 0" "read_short frame_stick_up 11 = 0x9E58"
    "read_short frame_stick_up 13 = 0" "read_short frame_stick_up 15 = 0"
    "frame_stick_up ! 0 = REQUEST_CODE_GET_GAMEPAD_STATE"
    by (simp_all add: frame_stick_up_def read_short_def REQUEST_CODE_GET_GAMEPAD_STATE_def)
  have c: "connected (controller just_connected)"
    by (simp add: just_connected_eq)
  show ?thesis
    unfolding controller_read_thread_frame_state [OF f(7) c]
      controller_update_state_accepted [OF a] stick_up_seen_def
    by (simp add: f decode_0 zero_gamepad_def) (simp add: just_connected_eq zero_state_def)
qed

lemma joystick_state_25000: "joystick_state 25000 = JS_STATE_HIGH"
  by (simp add: joystick_state_def word_sless_alt)

lemma stick_vk_left:
  "stick_vk VK_PAD_LTHUMB_UP 0 25000 = VK_PAD_LTHUMB_UP"
  "stick_vk VK_PAD_LTHUMB_UP 25000 0 = VK_PAD_LTHUMB_RIGHT"
  by (simp_all add: stick_vk_def joystick_state_25000 joystick_state_0 js_vk_offs_def
      JS_STATE_defs VK_PAD_LTHUMB_UP_def VK_PAD_LTHUMB_RIGHT_def)

lemma stick_up_poll:
  "XInputGetKeystroke 0 0 (key_event 0 0) stick_up_seen =
     (ERROR_SUCCESS, key_event VK_PAD_LTHUMB_UP XINPUT_KEYSTROKE_KEYDOWN,
      stick_up_seen\<lparr>controller := (controller stick_up_seen)
        \<lparr>last_keystroke := zero_gamepad\<lparr>sThumbLY := 25000\<rparr>\<rparr>\<rparr>)"
proof -
  have c: "connected (controller stick_up_seen)"
    by (simp add: stick_up_seen_def just_connected_eq)
  have q: "keys_quiet (controller stick_up_seen)"
    by (simp add: keys_quiet_def stick_up_seen_def just_connected_eq zero_gamepad_def)
  have n: "\<not> stick_centered 0 25000"
    by (simp add: stick_centered_def joystick_state_25000 JS_STATE_defs)
  have p: "Gamepad (state (controller stick_up_seen)) = zero_gamepad\<lparr>sThumbLY := 25000\<rparr>"
    "last_keystroke (controller stick_up_seen) = zero_gamepad"
    by (simp_all add: stick_up_seen_def just_connected_eq)
  have d: "check_joystick_keystroke (key_event 0 0) 0 25000 0 0 VK_PAD_LTHUMB_UP
      = (ERROR_SUCCESS, key_event (stick_vk VK_PAD_LTHUMB_UP 0 25000) XINPUT_KEYSTROKE_KEYDOWN,
         0, 25000)"
    by (rule check_joystick_keystroke_down) (simp_all add: n)
  show ?thesis
    unfolding XInputGetKeystroke_connected [OF c disjI1 [OF refl]]
      check_for_keystroke_sticks [OF q] p
    by (simp add: zero_gamepad_def d stick_vk_left)
qed

lemma frame_stick_right_a_step:
  "controller_read_thread_frame frame_stick_right_a
     (stick_up_seen\<lparr>controller := (controller stick_up_seen)
        \<lparr>last_keystroke := zero_gamepad\<lparr>sThumbLY := 25000\<rparr>\<rparr>\<rparr>) = stick_rotated_a_pressed"
proof -
  define g where "g = stick_up_seen\<lparr>controller := (controller stick_up_seen)
        \<lparr>last_keystroke := zero_gamepad\<lparr>sThumbLY := 25000\<rparr>\<rparr>\<rparr>"
  have a: "frame_accepted frame_stick_right_a (controller g)"
    by (simp add: frame_accepted_def frame_stick_right_a_def g_def stick_up_seen_def
        just_connected_eq read_int_def)
  have f: "read_short frame_stick_right_a 6 = 1" "frame_stick_right_a ! 8 = 8"
    "read_short frame_stick_right_a 9 = 25000" "read_short frame_stick_right_a 11 = 0"
    "read_short frame_stick_right_a 13 = 0" "read_short frame_stick_right_a 15 = 0"
    "frame_stick_right_a ! 0 = REQUEST_CODE_GET_GAMEPAD_STATE"
    by (simp_all add: frame_stick_right_a_def read_short_def REQUEST_CODE_GET_GAMEPAD_STATE_def)
  have c: "connected (controller g)"
    by (simp add: g_def stick_up_seen_def just_connected_eq)
  show ?thesis
    unfolding g_def [symmetric] controller_read_thread_frame_state [OF f(7) c]
      controller_update_state_accepted [OF a] stick_rotated_a_pressed_def
    by (simp add: f decode_0 decode_scenario button_set_1 zero_gamepad_def)
       (simp add: g_def stick_up_seen_def just_connected_eq zero_state_def zero_gamepad_def)
qed

lemma stick_rotated_a_pressed_run:
  "run [Enable True, Frame frame_discovery, Frame frame_stick_up,
        GetKeystroke 0 0 (key_event 0 0), Frame frame_stick_right_a] initial_globals
     = stick_rotated_a_pressed"
proof -
  have r: "run (evs @ [e]) g = step e (run evs g)" for evs e g
    by (simp add: run_def)
  have t: "thread_running just_connected" "thread_running stick_up_seen"
    by (simp_all add: stick_up_seen_def just_connected_eq)
  have "run ([Enable True, Frame frame_discovery] @ [Frame frame_stick_up]) initial_globals
      = stick_up_seen"
    unfolding r run_just_connected by (simp add: t frame_stick_up_step)
  then have "run (([Enable True, Frame frame_discovery] @ [Frame frame_stick_up])
        @ [GetKeystroke 0 0 (key_event 0 0)]) initial_globals
      = stick_up_seen\<lparr>controller := (controller stick_up_seen)
          \<lparr>last_keystroke := zero_gamepad\<lparr>sThumbLY := 25000\<rparr>\<rparr>\<rparr>"
    unfolding r [of "[Enable True, Frame frame_discovery] @ [Frame frame_stick_up]"]
    by (simp add: stick_up_poll)
  then have "run ((([Enable True, Frame frame_discovery] @ [Frame frame_stick_up])
        @ [GetKeystroke 0 0 (key_event 0 0)]) @ [Frame frame_stick_right_a]) initial_globals
      = stick_rotated_a_pressed"
    unfolding r [of "([Enable True, Frame frame_discovery] @ [Frame frame_stick_up])
        @ [GetKeystroke 0 0 (key_event 0 0)]"]
    by (simp add: t frame_stick_right_a_step)
  then show ?thesis by simp
qed

lemma a_pressed_poll:
  "XInputGetKeystroke 0 0 (key_event 0 0) stick_rotated_a_pressed =
     (ERROR_SUCCESS, key_event VK_PAD_A XINPUT_KEYSTROKE_KEYDOWN,
      stick_rotated_a_pressed\<lparr>controller := (controller stick_rotated_a_pressed)
        \<lparr>last_keystroke := zero_gamepad\<lparr>wButtons := XINPUT_GAMEPAD_A, sThumbLY := 25000\<rparr>\<rparr>\<rparr>)"
proof -
  have c: "connected (controller stick_rotated_a_pressed)"
    by (simp add: stick_rotated_a_pressed_def just_connected_eq)
  have b: "check_buttons buttons (controller stick_rotated_a_pressed) =
     Some (key_event VK_PAD_A XINPUT_KEYSTROKE_KEYDOWN,
       (controller stick_rotated_a_pressed)
        \<lparr>last_keystroke := zero_gamepad\<lparr>wButtons := XINPUT_GAMEPAD_A, sThumbLY := 25000\<rparr>\<rparr>)"
    by (simp add: buttons_def stick_rotated_a_pressed_def zero_gamepad_def key_event_def
        XINPUT_GAMEPAD_defs)
  show ?thesis
    unfolding XInputGetKeystroke_connected [OF c disjI1 [OF refl]]
    by (simp add: check_for_keystroke_def b)
qed

text \<open>
  Claim C5 as stated fails when a button changes in the same frame. In the run above the
  left stick is remembered up and is now to the right, two distinct non-null directions,
  and A is newly pressed: the first poll returns KEYDOWN for \<open>VK_PAD_A\<close> instead of
  KEYUP for \<open>VK_PAD_LTHUMB_UP\<close>, and the second returns KEYUP for
  \<open>VK_PAD_LTHUMB_UP\<close> instead of KEYDOWN for \<open>VK_PAD_LTHUMB_RIGHT\<close>.
\<close>

theorem button_event_precedes_stick:
  "run [Enable True, Frame frame_discovery, Frame frame_stick_up,
        GetKeystroke 0 0 (key_event 0 0), Frame frame_stick_right_a] initial_globals
     = stick_rotated_a_pressed
   \<and> connected (controller stick_rotated_a_pressed)
   \<and> \<not> stick_centered (sThumbLX (last_keystroke (controller stick_rotated_a_pressed)))
         (sThumbLY (last_keystroke (controller stick_rotated_a_pressed)))
   \<and> \<not> stick_centered (sThumbLX (Gamepad (state (controller stick_rotated_a_pressed))))
         (sThumbLY (Gamepad (state (controller stick_rotated_a_pressed))))
   \<and> \<not> same_direction (sThumbLX (last_keystroke (controller stick_rotated_a_pressed)))
         (sThumbLY (last_keystroke (controller stick_rotated_a_pressed)))
         (sThumbLX (Gamepad (state (controller stick_rotated_a_pressed))))
         (sThumbLY (Gamepad (state (controller stick_rotated_a_pressed))))
   \<and> stick_vk VK_PAD_LTHUMB_UP (sThumbLX (last_keystroke (controller stick_rotated_a_pressed)))
         (sThumbLY (last_keystroke (controller stick_rotated_a_pressed))) = VK_PAD_LTHUMB_UP
   \<and> stick_vk VK_PAD_LTHUMB_UP (sThumbLX (Gamepad (state (controller stick_rotated_a_pressed))))
         (sThumbLY (Gamepad (state (controller stick_rotated_a_pressed)))) = VK_PAD_LTHUMB_RIGHT
   \<and> fst (snd (XInputGetKeystroke 0 0 (key_event 0 0) stick_rotated_a_pressed))
       = key_event VK_PAD_A XINPUT_KEYSTROKE_KEYDOWN
   \<and> fst (snd (XInputGetKeystroke 0 0 (key_event 0 0)
         (snd (snd (XInputGetKeystroke 0 0 (key_event 0 0) stick_rotated_a_pressed)))))
       = key_event VK_PAD_LTHUMB_UP XINPUT_KEYSTROKE_KEYUP
   \<and> key_event VK_PAD_A XINPUT_KEYSTROKE_KEYDOWN \<noteq> key_event VK_PAD_LTHUMB_UP XINPUT_KEYSTROKE_KEYUP
   \<and> key_event VK_PAD_LTHUMB_UP XINPUT_KEYSTROKE_KEYUP
       \<noteq> key_event VK_PAD_LTHUMB_RIGHT XINPUT_KEYSTROKE_KEYDOWN"
proof -
  define g1 where "g1 = stick_rotated_a_pressed\<lparr>controller := (controller stick_rotated_a_pressed)
        \<lparr>last_keystroke := zero_gamepad\<lparr>wButtons := XINPUT_GAMEPAD_A, sThumbLY := 25000\<rparr>\<rparr>\<rparr>"
  have p: "sThumbLX (last_keystroke (controller stick_rotated_a_pressed)) = 0"
    "sThumbLY (last_keystroke (controller stick_rotated_a_pressed)) = 25000"
    "sThumbLX (Gamepad (state (controller stick_rotated_a_pressed))) = 25000"
    "sThumbLY (Gamepad (state (controller stick_rotated_a_pressed))) = 0"
    "connected (controller stick_rotated_a_pressed)"
    by (simp_all add: stick_rotated_a_pressed_def zero_gamepad_def just_connected_eq)
  have n: "\<not> stick_centered 0 25000" "\<not> stick_centered 25000 0"
    "\<not> same_direction 0 25000 25000 0"
    by (simp_all add: stick_centered_def same_direction_def joystick_state_25000
        joystick_state_0 JS_STATE_defs)
  have c1: "connected (controller g1)"
    by (simp add: g1_def p)
  have q1: "keys_quiet (controller g1)"
    by (simp add: keys_quiet_def g1_def stick_rotated_a_pressed_def zero_gamepad_def)
  have f1: "sThumbLX (last_keystroke (controller g1)) = 0"
    "sThumbLY (last_keystroke (controller g1)) = 25000"
    "sThumbLX (Gamepad (state (controller g1))) = 25000"
    "sThumbLY (Gamepad (state (controller g1))) = 0"
    by (simp_all add: g1_def stick_rotated_a_pressed_def zero_gamepad_def)
  have u: "check_for_keystroke (key_event 0 0) (controller g1) =
      (ERROR_SUCCESS, key_event (stick_vk VK_PAD_LTHUMB_UP 0 25000) XINPUT_KEYSTROKE_KEYUP,
       (controller g1)\<lparr>last_keystroke := (last_keystroke (controller g1))
          \<lparr>sThumbLX := 0, sThumbLY := 0\<rparr>\<rparr>)"
    using left_stick_transition(1) [OF q1, of "key_event 0 0"] n by (simp add: f1)
  have second: "fst (snd (XInputGetKeystroke 0 0 (key_event 0 0) g1))
      = key_event VK_PAD_LTHUMB_UP XINPUT_KEYSTROKE_KEYUP"
    unfolding XInputGetKeystroke_connected [OF c1 disjI1 [OF refl]]
    by (simp add: u stick_vk_left)
  have d: "key_event VK_PAD_A XINPUT_KEYSTROKE_KEYDOWN \<noteq> key_event VK_PAD_LTHUMB_UP XINPUT_KEYSTROKE_KEYUP"
    "key_event VK_PAD_LTHUMB_UP XINPUT_KEYSTROKE_KEYUP
       \<noteq> key_event VK_PAD_LTHUMB_RIGHT XINPUT_KEYSTROKE_KEYDOWN"
    by (simp_all add: key_event_def VK_PAD_A_def VK_PAD_LTHUMB_UP_def VK_PAD_LTHUMB_RIGHT_def)
  show ?thesis
    unfolding a_pressed_poll snd_conv fst_conv g1_def [symmetric] p
    using stick_rotated_a_pressed_run n second d
    by (simp add: stick_vk_left p)
qed

end
